theory Spec2Isabelle
  imports Complex_Main "HOL-Library.Log_Nat" "HOL-Library.AList"
begin

section \<open>Python floats: IEEE binary64 with round-to-nearest-even\<close>

text \<open>
  The scoring code computes with Python floats. A float is modelled by the rational
  number it denotes, and every float operation rounds its exact result to the nearest
  binary64 value, ties to even, with an unbounded exponent. A rounded result of
  magnitude \<open>2^1024\<close> or more lies beyond the largest double (\<open>overflows\<close>): integer
  true division raises \<^verbatim>\<open>OverflowError\<close> there, while a float operation returns an
  infinity without raising. The only float of the scoring code whose magnitude the
  constant tables do not bound is the quotient \<^verbatim>\<open>criminal_count / total_cases\<close>, with
  the history score computed from it and capped at 10 at once. Gradual underflow, which
  needs a quotient below \<open>2^-1022\<close>, is not modelled.
\<close>

definition rne :: "rat \<Rightarrow> int" where
  \<comment> \<open>nearest integer, ties to the even neighbour\<close>
  "rne q = (let f = \<lfloor>q\<rfloor>; r = q - of_int f
            in if r < 1/2 then f else if 1/2 < r then f + 1
               else if even f then f else f + 1)"

definition expo :: "rat \<Rightarrow> int" where
  \<comment> \<open>for \<open>0 < x\<close>: the \<open>e\<close> with \<open>2^e \<le> x < 2^(e+1)\<close>\<close>
  "expo x = (if 1 \<le> x then bitlen \<lfloor>x\<rfloor> - 1 else - bitlen (\<lceil>1 / x\<rceil> - 1))"

definition ulp :: "rat \<Rightarrow> rat" where
  \<comment> \<open>spacing of the 53-bit significands in the binade of \<open>x\<close>\<close>
  "ulp x = power_int 2 (expo \<bar>x\<bar> - 52)"

definition fl :: "rat \<Rightarrow> rat" where
  "fl x = (if x = 0 then 0 else of_int (rne (x / ulp x)) * ulp x)"

definition overflows :: "rat \<Rightarrow> bool" where
  \<comment> \<open>the rounded value lies beyond the largest double\<close>
  "overflows x \<longleftrightarrow> 2 ^ 1024 \<le> \<bar>x\<bar>"

definition fadd :: "rat \<Rightarrow> rat \<Rightarrow> rat" where
  "fadd x y = fl (x + y)"

definition fmul :: "rat \<Rightarrow> rat \<Rightarrow> rat" where
  "fmul x y = fl (x * y)"

section \<open>Python values, exceptions and dictionaries\<close>

datatype py_error = KeyError | ZeroDivisionError | OverflowError | TypeError | ValueError

definition and_then :: "py_error + 'a \<Rightarrow> ('a \<Rightarrow> py_error + 'b) \<Rightarrow> py_error + 'b" where
  \<comment> \<open>sequencing: an exception raised by the first computation propagates\<close>
  "and_then r k = (case r of Inl e \<Rightarrow> Inl e | Inr v \<Rightarrow> k v)"

definition subscript :: "(string \<times> 'v) list \<Rightarrow> string \<Rightarrow> py_error + 'v" where
  \<comment> \<open>\<^verbatim>\<open>d[k]\<close>\<close>
  "subscript d k = (case map_of d k of None \<Rightarrow> Inl KeyError | Some v \<Rightarrow> Inr v)"

definition dict_get :: "(string \<times> 'v) list \<Rightarrow> string \<Rightarrow> 'v \<Rightarrow> 'v" where
  \<comment> \<open>\<^verbatim>\<open>d.get(k, default)\<close>\<close>
  "dict_get d k dflt = (case map_of d k of None \<Rightarrow> dflt | Some v \<Rightarrow> v)"

definition truediv :: "int \<Rightarrow> int \<Rightarrow> py_error + rat" where
  \<comment> \<open>\<^verbatim>\<open>a / b\<close> on integers: the correctly rounded quotient;
      \<^verbatim>\<open>OverflowError\<close> when it is too large for a float\<close>
  "truediv a b =
    (if b = 0 then Inl ZeroDivisionError
     else let q = fl (of_int a / of_int b)
          in if overflows q then Inl OverflowError else Inr q)"

definition trunc :: "rat \<Rightarrow> int" where
  \<comment> \<open>truncation towards zero\<close>
  "trunc x = (if 0 \<le> x then \<lfloor>x\<rfloor> else \<lceil>x\<rceil>)"

definition int_of_float :: "rat \<Rightarrow> py_error + int" where
  \<comment> \<open>\<^verbatim>\<open>int(x)\<close> on a float: it raises only on NaN and infinities, which no
      rational denotes\<close>
  "int_of_float x = Inr (trunc x)"

definition py_sum :: "rat list \<Rightarrow> rat" where
  \<comment> \<open>\<^verbatim>\<open>sum(values)\<close>: left to right, starting from 0\<close>
  "py_sum xs = foldl fadd 0 xs"

section \<open>The person-attribute record\<close>

text \<open>
  \<^verbatim>\<open>person_data\<close> is a dictionary read only through \<^verbatim>\<open>.get(key, default)\<close>; a key may
  be absent. Each key is a field holding \<open>None\<close> when absent.
\<close>

record person_data =
  pattern_type :: "string option"
  total_cases :: "int option"
  criminal_count :: "int option"
  admin_count :: "int option"
  days_since_last :: "int option"
  recidivism_rate :: "rat option"
  current_age :: "int option"
  age_at_first_violation :: "int option"
  has_property :: "int option"
  has_job :: "int option"
  has_family :: "int option"
  substance_abuse :: "int option"
  has_escalation :: "int option"
  admin_to_criminal :: "int option"

definition get :: "'a option \<Rightarrow> 'a \<Rightarrow> 'a" where
  \<comment> \<open>\<^verbatim>\<open>data.get(key, default)\<close> on a field of the record\<close>
  "get field dflt = (case field of None \<Rightarrow> dflt | Some v \<Rightarrow> v)"

text \<open>
  The Cyrillic string constants of the source are written in Latin transliteration:
  Krazha (theft), Moshennichestvo (fraud), Ubiystvo (murder), Grabezh (robbery),
  Razboy (armed robbery), Vymogatelstvo (extortion), Iznasilovanie (rape),
  Khuliganstvo (hooliganism); Kriticheskiy (critical), Vysokiy (high), Sredniy
  (medium), Nizkiy (low). The coloured-circle emoji that starts a level label is
  written as the colour's name in parentheses.
\<close>

section \<open>\<^verbatim>\<open>utils/risk_calculator.py\<close>: RiskCalculator\<close>

definition weights :: "(string \<times> rat) list" where
  "weights =
    [(''pattern_weight'', fl 0.25),
     (''history_weight'', fl 0.20),
     (''time_weight'', fl 0.15),
     (''age_weight'', fl 0.10),
     (''social_weight'', fl 0.15),
     (''escalation_weight'', fl 0.15)]"

definition pattern_risks :: "(string \<times> rat) list" where
  "pattern_risks =
    [(''mixed_unstable'', fl 0.8),
     (''chronic_criminal'', fl 0.9),
     (''escalating'', fl 0.85),
     (''deescalating'', fl 0.4),
     (''single'', fl 0.3),
     (''unknown'', fl 0.5)]"

definition calculate_history_score :: "person_data \<Rightarrow> py_error + rat" where
  "calculate_history_score data =
    (let total = get (total_cases data) 0;
         criminal = get (criminal_count data) 0
     in if total = 0 then Inr 0
        else
          let base_score =
                (if total \<le> 2 then 2 else if total \<le> 5 then 4
                 else if total \<le> 10 then 6 else 8)
          in and_then
               (if criminal > 0
                then and_then (truediv criminal total)
                       (\<lambda>criminal_ratio. Inr (fadd base_score (fmul criminal_ratio 2)))
                else Inr base_score)
               (\<lambda>base_score. Inr (min 10 base_score)))"

definition calculate_time_score :: "person_data \<Rightarrow> int" where
  "calculate_time_score data =
    (let days = get (days_since_last data) 365;
         time_score =
           (if days < 30 then 10 else if days < 90 then 8
            else if days < 180 then 6 else if days < 365 then 4 else 2);
         rate = get (recidivism_rate data) 0
     in if rate > 2 then min 10 (time_score + 2) else time_score)"

definition calculate_age_score :: "person_data \<Rightarrow> int" where
  "calculate_age_score data =
    (let age = get (current_age data) 35;
         age_at_first = get (age_at_first_violation data) age;
         base_score =
           (if 18 \<le> age \<and> age \<le> 25 then 8
            else if 26 \<le> age \<and> age \<le> 35 then 6
            else if 36 \<le> age \<and> age \<le> 45 then 4 else 2);
         base_score =
           (if age_at_first < 18 then base_score + 3
            else if age_at_first < 21 then base_score + 2
            else if age_at_first < 25 then base_score + 1 else base_score)
     in min 10 base_score)"

definition calculate_social_score :: "person_data \<Rightarrow> int" where
  "calculate_social_score data =
    (let score = 5;
         score = (if get (has_property data) 0 = 1 then score - 2 else score);
         score = (if get (has_job data) 0 = 1 then score - 2 else score);
         score = (if get (has_family data) 0 = 1 then score - 1 else score);
         score = (if get (has_property data) 0 = 0 then score + 1 else score);
         score = (if get (has_job data) 0 = 0 then score + 1 else score);
         score = (if get (substance_abuse data) 0 = 1 then score + 2 else score)
     in max 0 (min 10 score))"

definition calculate_escalation_score :: "person_data \<Rightarrow> int" where
  "calculate_escalation_score data =
    (let escalation = get (has_escalation data) 0;
         transitions = get (admin_to_criminal data) 0
     in if escalation \<noteq> 0
        then (if transitions > 2 then 9 else if transitions > 0 then 7 else 5)
        else (if get (admin_count data) 0 > 5 then 4 else 2))"

definition calculate_risk_score :: "person_data \<Rightarrow> py_error + rat \<times> (string \<times> rat) list" where
  "calculate_risk_score data =
    (let components = [];
         pattern = get (pattern_type data) ''unknown'';
         pattern_score = fmul (dict_get pattern_risks pattern (fl 0.5)) 10
     in and_then (subscript weights ''pattern_weight'') (\<lambda>w.
        let components = AList.update ''pattern'' (fmul pattern_score w) components
        in and_then (calculate_history_score data) (\<lambda>history_score.
        and_then (subscript weights ''history_weight'') (\<lambda>w.
        let components = AList.update ''history'' (fmul history_score w) components;
            time_score = calculate_time_score data
        in and_then (subscript weights ''time_weight'') (\<lambda>w.
        let components = AList.update ''time'' (fmul (of_int time_score) w) components;
            age_score = calculate_age_score data
        in and_then (subscript weights ''age_weight'') (\<lambda>w.
        let components = AList.update ''age'' (fmul (of_int age_score) w) components;
            social_score = calculate_social_score data
        in and_then (subscript weights ''social_weight'') (\<lambda>w.
        let components = AList.update ''social'' (fmul (of_int social_score) w) components;
            escalation_score = calculate_escalation_score data
        in and_then (subscript weights ''escalation_weight'') (\<lambda>w.
        let components =
              AList.update ''escalation'' (fmul (of_int escalation_score) w) components;
            risk_score = py_sum (map snd components);
            risk_score = max 0 (min 10 risk_score)
        in Inr (risk_score, components)))))))))"

definition get_risk_level :: "rat \<Rightarrow> string \<times> string" where
  "get_risk_level risk_score =
    (if risk_score \<ge> 7 then (''(red) Kriticheskiy'', ''Trebuet nemedlennogo vmeshatelstva'')
     else if risk_score \<ge> 5 then (''(yellow) Vysokiy'', ''Usilennyy kontrol i monitoring'')
     else if risk_score \<ge> 3 then (''(orange) Sredniy'', ''Standartnyy kontrol'')
     else (''(green) Nizkiy'', ''Minimalnyy kontrol''))"

definition example_record :: person_data where
  "example_record =
    \<lparr> pattern_type = Some ''mixed_unstable'', total_cases = Some 5,
      criminal_count = Some 2, admin_count = Some 3, days_since_last = Some 60,
      recidivism_rate = Some 1.5, current_age = Some 28,
      age_at_first_violation = Some 21, has_property = Some 0, has_job = Some 1,
      has_family = Some 0, substance_abuse = Some 0, has_escalation = Some 0,
      admin_to_criminal = Some 1 \<rparr>"

definition base_probabilities :: "(string \<times> rat) list" where
  \<comment> \<open>the table local to \<^verbatim>\<open>calculate_crime_probability\<close>\<close>
  "base_probabilities =
    [(''Krazha'', fl 87.3),
     (''Moshennichestvo'', fl 82.3),
     (''Ubiystvo'', fl 97.0),
     (''Grabezh'', fl 60.2),
     (''Razboy'', fl 20.2),
     (''Vymogatelstvo'', fl 100.0),
     (''Iznasilovanie'', fl 65.6),
     (''Khuliganstvo'', fl 45.0)]"

definition time_windows :: "(string \<times> int) list" where
  \<comment> \<open>the table local to \<^verbatim>\<open>calculate_crime_probability\<close>\<close>
  "time_windows =
    [(''Moshennichestvo'', 109),
     (''Krazha'', 146),
     (''Ubiystvo'', 143),
     (''Grabezh'', 148),
     (''Razboy'', 150),
     (''Iznasilovanie'', 157),
     (''Vymogatelstvo'', 144),
     (''Khuliganstvo'', 155)]"

definition calculate_crime_probability :: "person_data \<Rightarrow> string \<Rightarrow> int \<Rightarrow> py_error + rat" where
  "calculate_crime_probability data crime days_ahead =
    (let base_prob = dict_get base_probabilities crime (fl 50.0)
     in and_then (calculate_risk_score data) (\<lambda>(risk_score, _).
        let risk_modifier = fl (risk_score / 10);
            expected_days = dict_get time_windows crime 140;
            time_modifier =
              (if of_int days_ahead < fmul (of_int expected_days) (fl 0.5) then fl 0.6
               else if days_ahead < expected_days then fl 0.8
               else if of_int days_ahead < fmul (of_int expected_days) (fl 1.5) then fl 1.0
               else fl 0.7);
            pattern = get (pattern_type data) ''unknown'';
            pattern_modifier =
              (if pattern = ''chronic_criminal'' \<and> crime \<in> set [''Krazha'', ''Grabezh'']
               then fl 1.3
               else if pattern = ''escalating'' \<and> crime \<in> set [''Grabezh'', ''Razboy'']
               then fl 1.2
               else if pattern = ''mixed_unstable'' then fl 1.1
               else fl 1.0);
            probability =
              fmul (fmul (fmul base_prob risk_modifier) time_modifier) pattern_modifier
        in Inr (max 5 (min 95 probability))))"

section \<open>\<^verbatim>\<open>utils/risk_calculator.py\<close>: CrimeForecaster\<close>

text \<open>
  A forecast entry. \<open>date\<close> is \<^verbatim>\<open>datetime.now() + timedelta(days=forecast_days)\<close>; the
  clock reading is a parameter \<open>now\<close> of the forecasting functions, counted in days.
  The source guards this addition against \<^verbatim>\<open>TypeError\<close> and \<^verbatim>\<open>ValueError\<close>; with an
  integer day count between 30 and 365 neither can occur, and the model has no such
  branch.
\<close>

record forecast =
  crime_type :: string
  days :: int
  date :: int
  probability :: rat
  ci_lower :: int
  ci_upper :: int
  confidence :: string
  risk_level :: string

definition base_windows :: "(string \<times> int) list" where
  "base_windows =
    [(''Moshennichestvo'', 109),
     (''Krazha'', 146),
     (''Ubiystvo'', 143),
     (''Vymogatelstvo'', 144),
     (''Grabezh'', 148),
     (''Razboy'', 150),
     (''Iznasilovanie'', 157),
     (''Khuliganstvo'', 155)]"

definition get_age_modifier :: "person_data \<Rightarrow> rat" where
  "get_age_modifier data =
    (let age = get (current_age data) 35
     in if age < 25 then fl 0.8 else if age < 35 then fl 0.9
        else if age < 45 then fl 1.1 else fl 1.3)"

definition modifiers :: "(string \<times> rat) list" where
  \<comment> \<open>the table local to \<^verbatim>\<open>_get_pattern_modifier\<close>\<close>
  "modifiers =
    [(''mixed_unstable'', fl 0.9),
     (''chronic_criminal'', fl 0.7),
     (''escalating'', fl 0.6),
     (''deescalating'', fl 1.3),
     (''single'', fl 1.5),
     (''unknown'', fl 1.0)]"

definition get_pattern_modifier :: "person_data \<Rightarrow> string \<Rightarrow> rat" where
  "get_pattern_modifier data crime =
    (let pattern = get (pattern_type data) ''unknown'';
         base_modifier = dict_get modifiers pattern (fl 1.0)
     in if pattern = ''chronic_criminal'' \<and> crime \<in> set [''Krazha'', ''Grabezh'']
        then fmul base_modifier (fl 0.9)
        else if pattern = ''escalating'' \<and> crime \<in> set [''Razboy'', ''Ubiystvo'']
        then fmul base_modifier (fl 0.8)
        else base_modifier)"

definition get_social_modifier :: "person_data \<Rightarrow> rat" where
  "get_social_modifier data =
    (let modifier = fl 1.0;
         modifier = (if get (has_property data) 0 = 0 then fmul modifier (fl 0.85) else modifier);
         modifier = (if get (has_job data) 0 = 0 then fmul modifier (fl 0.9) else modifier);
         modifier = (if get (substance_abuse data) 0 = 1 then fmul modifier (fl 0.8) else modifier)
     in modifier)"

definition calculate_confidence :: "person_data \<Rightarrow> string \<Rightarrow> string" where
  "calculate_confidence data crime =
    (let factors = (0::int);
         factors = (if get (total_cases data) 0 > 5 then factors + 1 else factors);
         factors = (if get (pattern_type data) ''unknown'' \<noteq> ''unknown''
                    then factors + 1 else factors);
         factors = (if get (has_escalation data) 0 = 1 then factors + 1 else factors)
     in if factors \<ge> 3 then ''Vysokaya''
        else if factors \<ge> 2 then ''Srednyaya'' else ''Nizkaya'')"

definition get_timeline_risk_level :: "int \<Rightarrow> string" where
  "get_timeline_risk_level d =
    (if d < 60 then ''(red) Kriticheskiy period''
     else if d < 120 then ''(yellow) Vysokiy risk''
     else if d < 180 then ''(orange) Sredniy risk''
     else ''(green) Nizkiy risk'')"

definition forecast_days_try :: "py_error + int \<Rightarrow> int \<Rightarrow> py_error + int" where
  \<comment> \<open>the \<^verbatim>\<open>try: ... except (TypeError, ValueError): ...\<close> block around the day count;
      \<open>r\<close> is the outcome of \<^verbatim>\<open>int(base_days * age_modifier * ...)\<close>\<close>
  "forecast_days_try r base_days =
    (case r of
       Inr forecast_days \<Rightarrow> Inr (max 30 (min 365 forecast_days))
     | Inl e \<Rightarrow>
         if e = TypeError \<or> e = ValueError then Inr (max 30 (min 365 base_days))
         else Inl e)"

definition calculate_single_forecast_from ::
    "py_error + int \<Rightarrow> int \<Rightarrow> person_data \<Rightarrow> string \<Rightarrow> int \<Rightarrow> py_error + forecast" where
  \<comment> \<open>\<^verbatim>\<open>_calculate_single_forecast\<close> from its try block on; \<open>r\<close> is the outcome of the
      guarded \<^verbatim>\<open>int(base_days * age_modifier * pattern_modifier * social_modifier)\<close>\<close>
  "calculate_single_forecast_from r now data crime base_days =
     and_then (forecast_days_try r base_days) (\<lambda>forecast_days.
     and_then (int_of_float (fmul (of_int forecast_days) (fl 0.7))) (\<lambda>lower.
     and_then (int_of_float (fmul (of_int forecast_days) (fl 1.4))) (\<lambda>upper.
     and_then (calculate_crime_probability data crime forecast_days) (\<lambda>prob.
     let forecast_date = now + forecast_days;
         conf = calculate_confidence data crime
     in Inr \<lparr> crime_type = crime, days = forecast_days, date = forecast_date,
              probability = prob, ci_lower = lower, ci_upper = upper,
              confidence = conf,
              risk_level = get_timeline_risk_level forecast_days \<rparr>))))"

definition calculate_single_forecast ::
    "int \<Rightarrow> person_data \<Rightarrow> string \<Rightarrow> int \<Rightarrow> py_error + forecast" where
  "calculate_single_forecast now data crime base_days =
    (let age_modifier = get_age_modifier data;
         pattern_modifier = get_pattern_modifier data crime;
         social_modifier = get_social_modifier data
     in calculate_single_forecast_from
          (int_of_float
             (fmul (fmul (fmul (of_int base_days) age_modifier) pattern_modifier)
                social_modifier))
          now data crime base_days)"

fun forecast_loop ::
    "int \<Rightarrow> person_data \<Rightarrow> (string \<times> int) list \<Rightarrow> (string \<times> forecast) list
      \<Rightarrow> py_error + (string \<times> forecast) list" where
  \<comment> \<open>\<^verbatim>\<open>for crime_type, base_days in self.base_windows.items(): ...\<close>\<close>
  "forecast_loop now data [] forecasts = Inr forecasts"
| "forecast_loop now data ((crime, base_days) # rest) forecasts =
     and_then (calculate_single_forecast now data crime base_days) (\<lambda>f.
       forecast_loop now data rest (AList.update crime f forecasts))"

definition dict_of :: "(string \<times> 'v) list \<Rightarrow> (string \<times> 'v) list" where
  \<comment> \<open>\<^verbatim>\<open>dict(pairs)\<close>: a repeated key keeps its first position and its last value\<close>
  "dict_of pairs = foldl (\<lambda>d (k, v). AList.update k v d) [] pairs"

definition forecast_crime_timeline ::
    "int \<Rightarrow> person_data \<Rightarrow> py_error + (string \<times> forecast) list" where
  "forecast_crime_timeline now data =
    and_then (forecast_loop now data base_windows []) (\<lambda>forecasts.
      Inr (dict_of (sort_key (\<lambda>x. days (snd x)) forecasts)))"

section \<open>\<^verbatim>\<open>backend/app/core/constants.py\<close>\<close>

definition CRIME_TIME_WINDOWS :: "(string \<times> int) list" where
  "CRIME_TIME_WINDOWS =
    [(''Moshennichestvo'', 109),
     (''Krazha'', 146),
     (''Ubiystvo'', 143),
     (''Vymogatelstvo'', 144),
     (''Grabezh'', 148),
     (''Razboy'', 150),
     (''Iznasilovanie'', 157),
     (''Khuliganstvo'', 155)]"

definition PREVENTION_RATES :: "(string \<times> rat) list" where
  "PREVENTION_RATES =
    [(''Moshennichestvo'', fl 82.3),
     (''Krazha'', fl 87.3),
     (''Ubiystvo'', fl 97.0),
     (''Vymogatelstvo'', fl 100.0),
     (''Grabezh'', fl 60.2),
     (''Razboy'', fl 20.2),
     (''Iznasilovanie'', fl 65.6),
     (''Khuliganstvo'', fl 45.0)]"

definition RISK_WEIGHTS :: "(string \<times> rat) list" where
  "RISK_WEIGHTS =
    [(''pattern_weight'', fl 0.25),
     (''history_weight'', fl 0.20),
     (''time_weight'', fl 0.15),
     (''age_weight'', fl 0.10),
     (''social_weight'', fl 0.15),
     (''escalation_weight'', fl 0.15)]"

definition PATTERN_RISKS :: "(string \<times> rat) list" where
  "PATTERN_RISKS =
    [(''mixed_unstable'', fl 0.8),
     (''chronic_criminal'', fl 0.9),
     (''escalating'', fl 0.85),
     (''deescalating'', fl 0.4),
     (''single'', fl 0.3),
     (''unknown'', fl 0.5)]"

section \<open>\<^verbatim>\<open>backend/app/services/risk_service.py\<close>: the ported RiskCalculator and CrimeForecaster\<close>

text \<open>
  The service module repeats both classes; its tables are the module constants above.
  Its definitions carry the suffix \<open>_svc\<close>.
\<close>

definition calculate_history_score_svc :: "person_data \<Rightarrow> py_error + rat" where
  "calculate_history_score_svc data =
    (let total = get (total_cases data) 0;
         criminal = get (criminal_count data) 0
     in if total = 0 then Inr 0
        else
          let base_score =
                (if total \<le> 2 then 2 else if total \<le> 5 then 4
                 else if total \<le> 10 then 6 else 8)
          in and_then
               (if criminal > 0
                then and_then (truediv criminal total)
                       (\<lambda>criminal_ratio. Inr (fadd base_score (fmul criminal_ratio 2)))
                else Inr base_score)
               (\<lambda>base_score. Inr (min 10 base_score)))"

definition calculate_time_score_svc :: "person_data \<Rightarrow> int" where
  "calculate_time_score_svc data =
    (let days = get (days_since_last data) 365;
         time_score =
           (if days < 30 then 10 else if days < 90 then 8
            else if days < 180 then 6 else if days < 365 then 4 else 2);
         rate = get (recidivism_rate data) 0
     in if rate > 2 then min 10 (time_score + 2) else time_score)"

definition calculate_age_score_svc :: "person_data \<Rightarrow> int" where
  "calculate_age_score_svc data =
    (let age = get (current_age data) 35;
         age_at_first = get (age_at_first_violation data) age;
         base_score =
           (if 18 \<le> age \<and> age \<le> 25 then 8
            else if 26 \<le> age \<and> age \<le> 35 then 6
            else if 36 \<le> age \<and> age \<le> 45 then 4 else 2);
         base_score =
           (if age_at_first < 18 then base_score + 3
            else if age_at_first < 21 then base_score + 2
            else if age_at_first < 25 then base_score + 1 else base_score)
     in min 10 base_score)"

definition calculate_social_score_svc :: "person_data \<Rightarrow> int" where
  "calculate_social_score_svc data =
    (let score = 5;
         score = (if get (has_property data) 0 = 1 then score - 2 else score);
         score = (if get (has_job data) 0 = 1 then score - 2 else score);
         score = (if get (has_family data) 0 = 1 then score - 1 else score);
         score = (if get (has_property data) 0 = 0 then score + 1 else score);
         score = (if get (has_job data) 0 = 0 then score + 1 else score);
         score = (if get (substance_abuse data) 0 = 1 then score + 2 else score)
     in max 0 (min 10 score))"

definition calculate_escalation_score_svc :: "person_data \<Rightarrow> int" where
  "calculate_escalation_score_svc data =
    (let escalation = get (has_escalation data) 0;
         transitions = get (admin_to_criminal data) 0
     in if escalation \<noteq> 0
        then (if transitions > 2 then 9 else if transitions > 0 then 7 else 5)
        else (if get (admin_count data) 0 > 5 then 4 else 2))"

definition calculate_risk_score_svc :: "person_data \<Rightarrow> py_error + rat \<times> (string \<times> rat) list" where
  "calculate_risk_score_svc data =
    (let components = [];
         pattern = get (pattern_type data) ''unknown'';
         pattern_score = fmul (dict_get PATTERN_RISKS pattern (fl 0.5)) 10
     in and_then (subscript RISK_WEIGHTS ''pattern_weight'') (\<lambda>w.
        let components = AList.update ''pattern'' (fmul pattern_score w) components
        in and_then (calculate_history_score_svc data) (\<lambda>history_score.
        and_then (subscript RISK_WEIGHTS ''history_weight'') (\<lambda>w.
        let components = AList.update ''history'' (fmul history_score w) components;
            time_score = calculate_time_score_svc data
        in and_then (subscript RISK_WEIGHTS ''time_weight'') (\<lambda>w.
        let components = AList.update ''time'' (fmul (of_int time_score) w) components;
            age_score = calculate_age_score_svc data
        in and_then (subscript RISK_WEIGHTS ''age_weight'') (\<lambda>w.
        let components = AList.update ''age'' (fmul (of_int age_score) w) components;
            social_score = calculate_social_score_svc data
        in and_then (subscript RISK_WEIGHTS ''social_weight'') (\<lambda>w.
        let components = AList.update ''social'' (fmul (of_int social_score) w) components;
            escalation_score = calculate_escalation_score_svc data
        in and_then (subscript RISK_WEIGHTS ''escalation_weight'') (\<lambda>w.
        let components =
              AList.update ''escalation'' (fmul (of_int escalation_score) w) components;
            risk_score = py_sum (map snd components);
            risk_score = max 0 (min 10 risk_score)
        in Inr (risk_score, components)))))))))"

definition get_risk_level_svc :: "rat \<Rightarrow> string \<times> string" where
  "get_risk_level_svc risk_score =
    (if risk_score \<ge> 7 then (''(red) Kriticheskiy'', ''Trebuet nemedlennogo vmeshatelstva'')
     else if risk_score \<ge> 5 then (''(yellow) Vysokiy'', ''Usilennyy kontrol i monitoring'')
     else if risk_score \<ge> 3 then (''(orange) Sredniy'', ''Standartnyy kontrol'')
     else (''(green) Nizkiy'', ''Minimalnyy kontrol''))"

definition calculate_crime_probability_svc :: "person_data \<Rightarrow> string \<Rightarrow> int \<Rightarrow> py_error + rat" where
  "calculate_crime_probability_svc data crime days_ahead =
    (let base_prob = dict_get PREVENTION_RATES crime (fl 50.0)
     in and_then (calculate_risk_score_svc data) (\<lambda>(risk_score, _).
        let risk_modifier = fl (risk_score / 10);
            expected_days = dict_get CRIME_TIME_WINDOWS crime 140;
            time_modifier =
              (if of_int days_ahead < fmul (of_int expected_days) (fl 0.5) then fl 0.6
               else if days_ahead < expected_days then fl 0.8
               else if of_int days_ahead < fmul (of_int expected_days) (fl 1.5) then fl 1.0
               else fl 0.7);
            pattern = get (pattern_type data) ''unknown'';
            pattern_modifier =
              (if pattern = ''chronic_criminal'' \<and> crime \<in> set [''Krazha'', ''Grabezh'']
               then fl 1.3
               else if pattern = ''escalating'' \<and> crime \<in> set [''Grabezh'', ''Razboy'']
               then fl 1.2
               else if pattern = ''mixed_unstable'' then fl 1.1
               else fl 1.0);
            probability =
              fmul (fmul (fmul base_prob risk_modifier) time_modifier) pattern_modifier
        in Inr (max 5 (min 95 probability))))"

definition get_age_modifier_svc :: "person_data \<Rightarrow> rat" where
  "get_age_modifier_svc data =
    (let age = get (current_age data) 35
     in if age < 25 then fl 0.8 else if age < 35 then fl 0.9
        else if age < 45 then fl 1.1 else fl 1.3)"

definition modifiers_svc :: "(string \<times> rat) list" where
  \<comment> \<open>the table local to \<^verbatim>\<open>_get_pattern_modifier\<close>\<close>
  "modifiers_svc =
    [(''mixed_unstable'', fl 0.9),
     (''chronic_criminal'', fl 0.7),
     (''escalating'', fl 0.6),
     (''deescalating'', fl 1.3),
     (''single'', fl 1.5),
     (''unknown'', fl 1.0)]"

definition get_pattern_modifier_svc :: "person_data \<Rightarrow> string \<Rightarrow> rat" where
  "get_pattern_modifier_svc data crime =
    (let pattern = get (pattern_type data) ''unknown'';
         base_modifier = dict_get modifiers_svc pattern (fl 1.0)
     in if pattern = ''chronic_criminal'' \<and> crime \<in> set [''Krazha'', ''Grabezh'']
        then fmul base_modifier (fl 0.9)
        else if pattern = ''escalating'' \<and> crime \<in> set [''Razboy'', ''Ubiystvo'']
        then fmul base_modifier (fl 0.8)
        else base_modifier)"

definition get_social_modifier_svc :: "person_data \<Rightarrow> rat" where
  "get_social_modifier_svc data =
    (let modifier = fl 1.0;
         modifier = (if get (has_property data) 0 = 0 then fmul modifier (fl 0.85) else modifier);
         modifier = (if get (has_job data) 0 = 0 then fmul modifier (fl 0.9) else modifier);
         modifier = (if get (substance_abuse data) 0 = 1 then fmul modifier (fl 0.8) else modifier)
     in modifier)"

definition calculate_confidence_svc :: "person_data \<Rightarrow> string \<Rightarrow> string" where
  "calculate_confidence_svc data crime =
    (let factors = (0::int);
         factors = (if get (total_cases data) 0 > 5 then factors + 1 else factors);
         factors = (if get (pattern_type data) ''unknown'' \<noteq> ''unknown''
                    then factors + 1 else factors);
         factors = (if get (has_escalation data) 0 = 1 then factors + 1 else factors)
     in if factors \<ge> 3 then ''Vysokaya''
        else if factors \<ge> 2 then ''Srednyaya'' else ''Nizkaya'')"

definition get_timeline_risk_level_svc :: "int \<Rightarrow> string" where
  "get_timeline_risk_level_svc d =
    (if d < 60 then ''(red) Kriticheskiy period''
     else if d < 120 then ''(yellow) Vysokiy risk''
     else if d < 180 then ''(orange) Sredniy risk''
     else ''(green) Nizkiy risk'')"

definition forecast_days_try_svc :: "py_error + int \<Rightarrow> int \<Rightarrow> py_error + int" where
  \<comment> \<open>the \<^verbatim>\<open>try: ... except (TypeError, ValueError): ...\<close> block around the day count;
      \<open>r\<close> is the outcome of \<^verbatim>\<open>int(base_days * age_modifier * ...)\<close>\<close>
  "forecast_days_try_svc r base_days =
    (case r of
       Inr forecast_days \<Rightarrow> Inr (max 30 (min 365 forecast_days))
     | Inl e \<Rightarrow>
         if e = TypeError \<or> e = ValueError then Inr (max 30 (min 365 base_days))
         else Inl e)"

definition calculate_single_forecast_from_svc ::
    "py_error + int \<Rightarrow> int \<Rightarrow> person_data \<Rightarrow> string \<Rightarrow> int \<Rightarrow> py_error + forecast" where
  \<comment> \<open>\<^verbatim>\<open>_calculate_single_forecast\<close> from its try block on; \<open>r\<close> is the outcome of the
      guarded \<^verbatim>\<open>int(base_days * age_modifier * pattern_modifier * social_modifier)\<close>\<close>
  "calculate_single_forecast_from_svc r now data crime base_days =
     and_then (forecast_days_try_svc r base_days) (\<lambda>forecast_days.
     and_then (int_of_float (fmul (of_int forecast_days) (fl 0.7))) (\<lambda>lower.
     and_then (int_of_float (fmul (of_int forecast_days) (fl 1.4))) (\<lambda>upper.
     and_then (calculate_crime_probability_svc data crime forecast_days) (\<lambda>prob.
     let forecast_date = now + forecast_days;
         conf = calculate_confidence_svc data crime
     in Inr \<lparr> crime_type = crime, days = forecast_days, date = forecast_date,
              probability = prob, ci_lower = lower, ci_upper = upper,
              confidence = conf,
              risk_level = get_timeline_risk_level_svc forecast_days \<rparr>))))"

definition calculate_single_forecast_svc ::
    "int \<Rightarrow> person_data \<Rightarrow> string \<Rightarrow> int \<Rightarrow> py_error + forecast" where
  "calculate_single_forecast_svc now data crime base_days =
    (let age_modifier = get_age_modifier_svc data;
         pattern_modifier = get_pattern_modifier_svc data crime;
         social_modifier = get_social_modifier_svc data
     in calculate_single_forecast_from_svc
          (int_of_float
             (fmul (fmul (fmul (of_int base_days) age_modifier) pattern_modifier)
                social_modifier))
          now data crime base_days)"

fun forecast_loop_svc ::
    "int \<Rightarrow> person_data \<Rightarrow> (string \<times> int) list \<Rightarrow> (string \<times> forecast) list
      \<Rightarrow> py_error + (string \<times> forecast) list" where
  \<comment> \<open>\<^verbatim>\<open>for crime_type, base_days in self.CRIME_TIME_WINDOWS.items(): ...\<close>\<close>
  "forecast_loop_svc now data [] forecasts = Inr forecasts"
| "forecast_loop_svc now data ((crime, base_days) # rest) forecasts =
     and_then (calculate_single_forecast_svc now data crime base_days) (\<lambda>f.
       forecast_loop_svc now data rest (AList.update crime f forecasts))"

definition forecast_crime_timeline_svc ::
    "int \<Rightarrow> person_data \<Rightarrow> py_error + (string \<times> forecast) list" where
  "forecast_crime_timeline_svc now data =
    and_then (forecast_loop_svc now data CRIME_TIME_WINDOWS []) (\<lambda>forecasts.
      Inr (dict_of (sort_key (\<lambda>x. days (snd x)) forecasts)))"


section \<open>The formulas and the input domain of the specification\<close>

text \<open>
  The definitions of this section follow the words of the specification, not the code:
  they are what the code is compared with.
\<close>

definition clamp :: "'a::linorder \<Rightarrow> 'a \<Rightarrow> 'a \<Rightarrow> 'a" where
  "clamp x lo hi = max lo (min hi x)"

definition py_round :: "rat \<Rightarrow> int" where
  \<comment> \<open>\<^verbatim>\<open>round(x)\<close>: to the nearest integer, ties to even\<close>
  "py_round x = rne x"

definition spec_age_modifier :: "int \<Rightarrow> rat" where
  "spec_age_modifier age =
    (if age < 25 then fl 0.8 else if age < 35 then fl 0.9
     else if age < 45 then fl 1.1 else fl 1.3)"

definition spec_pattern_base :: "string \<Rightarrow> rat" where
  "spec_pattern_base pattern =
    (if pattern = ''mixed_unstable'' then fl 0.9
     else if pattern = ''chronic_criminal'' then fl 0.7
     else if pattern = ''escalating'' then fl 0.6
     else if pattern = ''deescalating'' then fl 1.3
     else if pattern = ''single'' then fl 1.5
     else fl 1.0)"

definition spec_pattern_modifier :: "string \<Rightarrow> string \<Rightarrow> rat" where
  "spec_pattern_modifier pattern crime =
    (if pattern = ''chronic_criminal'' \<and> (crime = ''Krazha'' \<or> crime = ''Grabezh'')
     then fmul (spec_pattern_base pattern) (fl 0.9)
     else if pattern = ''escalating'' \<and> (crime = ''Razboy'' \<or> crime = ''Ubiystvo'')
     then fmul (spec_pattern_base pattern) (fl 0.8)
     else spec_pattern_base pattern)"

definition spec_social_modifier :: "int \<Rightarrow> int \<Rightarrow> int \<Rightarrow> rat" where
  "spec_social_modifier property job abuse =
    (let m = fl 1.0;
         m = (if property = 0 then fmul m (fl 0.85) else m);
         m = (if job = 0 then fmul m (fl 0.9) else m);
         m = (if abuse = 1 then fmul m (fl 0.8) else m)
     in m)"

definition spec_days_product :: "person_data \<Rightarrow> string \<Rightarrow> int \<Rightarrow> rat" where
  \<comment> \<open>\<open>B * age_modifier * pattern_modifier * social_modifier\<close>\<close>
  "spec_days_product data crime B =
    fmul (fmul (fmul (of_int B) (spec_age_modifier (get (current_age data) 35)))
            (spec_pattern_modifier (get (pattern_type data) ''unknown'') crime))
      (spec_social_modifier (get (has_property data) 0) (get (has_job data) 0)
         (get (substance_abuse data) 0))"


definition spec_confidence_interval :: "int \<Rightarrow> int \<times> int" where
  \<comment> \<open>the interval as the specification words it, with \<open>round\<close>\<close>
  "spec_confidence_interval d =
    (py_round (fmul (of_int d) (fl 0.7)), py_round (fmul (of_int d) (fl 1.4)))"

definition spec_time_modifier :: "int \<Rightarrow> int \<Rightarrow> rat" where
  \<comment> \<open>\<open>days_ahead\<close> below 50%, 100%, 150% of the base window, or beyond\<close>
  "spec_time_modifier window days_ahead =
    (if 2 * days_ahead < window then fl 0.6
     else if days_ahead < window then fl 0.8
     else if 2 * days_ahead < 3 * window then fl 1.0
     else fl 0.7)"

definition spec_probability_pattern_modifier :: "string \<Rightarrow> string \<Rightarrow> rat" where
  "spec_probability_pattern_modifier pattern crime =
    (if pattern = ''chronic_criminal'' \<and> (crime = ''Krazha'' \<or> crime = ''Grabezh'') then fl 1.3
     else if pattern = ''escalating'' \<and> (crime = ''Grabezh'' \<or> crime = ''Razboy'') then fl 1.2
     else if pattern = ''mixed_unstable'' then fl 1.1
     else fl 1.0)"

definition nonneg_fields :: "person_data \<Rightarrow> bool" where
  \<comment> \<open>every numeric field that is present is non-negative\<close>
  "nonneg_fields data \<longleftrightarrow>
     0 \<le> get (total_cases data) 0 \<and> 0 \<le> get (criminal_count data) 0
     \<and> 0 \<le> get (admin_count data) 0 \<and> 0 \<le> get (days_since_last data) 0
     \<and> 0 \<le> get (recidivism_rate data) 0 \<and> 0 \<le> get (current_age data) 0
     \<and> 0 \<le> get (age_at_first_violation data) 0 \<and> 0 \<le> get (has_property data) 0
     \<and> 0 \<le> get (has_job data) 0 \<and> 0 \<le> get (has_family data) 0
     \<and> 0 \<le> get (substance_abuse data) 0 \<and> 0 \<le> get (has_escalation data) 0
     \<and> 0 \<le> get (admin_to_criminal data) 0"

definition in_domain :: "person_data \<Rightarrow> bool" where
  \<comment> \<open>the input domain of section 3 of the specification\<close>
  "in_domain data \<longleftrightarrow>
     get (pattern_type data) ''unknown'' \<in>
       set [''mixed_unstable'', ''chronic_criminal'', ''escalating'', ''deescalating'',
            ''single'', ''unknown'']
     \<and> 0 \<le> get (total_cases data) 0 \<and> 0 \<le> get (criminal_count data) 0
     \<and> 0 \<le> get (admin_count data) 0 \<and> 0 \<le> get (days_since_last data) 365
     \<and> 0 \<le> get (recidivism_rate data) 0
     \<and> 14 \<le> get (current_age data) 35 \<and> get (current_age data) 35 \<le> 100
     \<and> get (age_at_first_violation data) (get (current_age data) 35)
           \<le> get (current_age data) 35
     \<and> get (has_property data) 0 \<in> {0, 1} \<and> get (has_job data) 0 \<in> {0, 1}
     \<and> get (has_family data) 0 \<in> {0, 1} \<and> get (substance_abuse data) 0 \<in> {0, 1}
     \<and> get (has_escalation data) 0 \<in> {0, 1}
     \<and> 0 \<le> get (admin_to_criminal data) 0"

definition quotient_in_range :: "person_data \<Rightarrow> bool" where
  \<comment> \<open>the quotient \<^verbatim>\<open>criminal_count / total_cases\<close>, where the history score takes it,
      is not too large for a float\<close>
  "quotient_in_range data \<longleftrightarrow>
     get (total_cases data) 0 = 0 \<or> get (criminal_count data) 0 \<le> 0
     \<or> \<not> overflows (fl (of_int (get (criminal_count data) 0)
                         / of_int (get (total_cases data) 0)))"

definition without_date :: "forecast \<Rightarrow> string \<times> int \<times> rat \<times> int \<times> int \<times> string \<times> string" where
  \<comment> \<open>a forecast entry without its wall-clock field\<close>
  "without_date f =
    (crime_type f, days f, probability f, ci_lower f, ci_upper f, confidence f, risk_level f)"

definition overflow_record :: person_data where
  \<comment> \<open>one case, \<open>2^1024\<close> criminal cases, every other key absent\<close>
  "overflow_record =
    \<lparr> pattern_type = None, total_cases = Some 1, criminal_count = Some (2 ^ 1024),
      admin_count = None, days_since_last = None, recidivism_rate = None,
      current_age = None, age_at_first_violation = None, has_property = None,
      has_job = None, has_family = None, substance_abuse = None, has_escalation = None,
      admin_to_criminal = None \<rparr>"

definition young_owner :: person_data where
  \<comment> \<open>a twenty-year-old with property and a job, every other key absent\<close>
  "young_owner =
    \<lparr> pattern_type = None, total_cases = None, criminal_count = None, admin_count = None,
      days_since_last = None, recidivism_rate = None, current_age = Some 20,
      age_at_first_violation = None, has_property = Some 1, has_job = Some 1,
      has_family = None, substance_abuse = None, has_escalation = None,
      admin_to_criminal = None \<rparr>"

section \<open>Rounding to binary64: order and error\<close>

lemma rne_of_int: "rne (of_int m) = m"
  by (simp add: rne_def)

lemma rne_floor_le: "\<lfloor>q\<rfloor> \<le> rne q"
  by (simp add: rne_def Let_def)

lemma rne_le_floor: "rne q \<le> \<lfloor>q\<rfloor> + 1"
  by (simp add: rne_def Let_def)

lemma rne_mono: "q \<le> q' \<Longrightarrow> rne q \<le> rne q'"
proof -
  assume le: "q \<le> q'"
  then have fle: "\<lfloor>q\<rfloor> \<le> \<lfloor>q'\<rfloor>" by (rule floor_mono)
  show ?thesis
  proof (cases "\<lfloor>q\<rfloor> = \<lfloor>q'\<rfloor>")
    case True
    with le show ?thesis by (auto simp: rne_def Let_def)
  next
    case False
    with fle have "\<lfloor>q\<rfloor> + 1 \<le> \<lfloor>q'\<rfloor>" by simp
    with rne_le_floor [of q] rne_floor_le [of q'] show ?thesis by linarith
  qed
qed

lemma rne_error: "\<bar>of_int (rne q) - q\<bar> \<le> 1 / 2"
proof -
  have "of_int \<lfloor>q\<rfloor> \<le> q" "q < of_int \<lfloor>q\<rfloor> + 1" by linarith+
  then show ?thesis by (auto simp: rne_def Let_def)
qed

lemma rne_ge_int: "of_int m \<le> q \<Longrightarrow> m \<le> rne q"
  using rne_mono [of "of_int m" q] by (simp add: rne_of_int)

lemma rne_le_int: "q \<le> of_int m \<Longrightarrow> rne q \<le> m"
  using rne_mono [of q "of_int m"] by (simp add: rne_of_int)

lemma expo_bounds:
  assumes "0 < x"
  shows "power_int 2 (expo x) \<le> x" and "x < power_int 2 (expo x + 1)"
proof -
  have "power_int 2 (expo x) \<le> x \<and> x < power_int 2 (expo x + 1)"
  proof (cases "1 \<le> x")
    case True
    define n where "n = \<lfloor>x\<rfloor>"
    have n: "1 \<le> n" "of_int n \<le> x" "x < of_int n + 1"
      using True unfolding n_def by linarith+
    then have "0 < n" by simp
    from bitlen_bounds [OF this]
    have b: "2 ^ nat (bitlen n - 1) \<le> n" "n < 2 ^ nat (bitlen n)" by simp_all
    have b1: "1 \<le> bitlen n"
      using \<open>0 < n\<close> bitlen_eq_zero_iff [of n] bitlen_nonneg [of n] by linarith
    have e: "expo x = bitlen n - 1" using True by (simp add: expo_def n_def)
    have "(power_int 2 (bitlen n - 1) :: rat) = of_int (2 ^ nat (bitlen n - 1))"
      using b1 by (simp add: power_int_def)
    also have "\<dots> \<le> of_int n" using b(1) by (simp only: of_int_le_iff)
    finally have lo: "power_int 2 (expo x) \<le> x" using n(2) e by simp
    have "n + 1 \<le> 2 ^ nat (bitlen n)" using b(2) by simp
    then have "(of_int (n + 1) :: rat) \<le> of_int (2 ^ nat (bitlen n))"
      by (simp only: of_int_le_iff)
    also have "\<dots> = power_int 2 (bitlen n)"
      using b1 by (simp add: power_int_def)
    finally have "x < power_int 2 (expo x + 1)" using n(3) e by simp
    with lo show ?thesis by simp
  next
    case False
    define n where "n = \<lceil>1 / x\<rceil> - 1"
    have y1: "1 < 1 / x" using False assms by simp
    have n: "of_int n < 1 / x" "1 / x \<le> of_int n + 1"
      unfolding n_def by linarith+
    have "1 \<le> n" using y1 unfolding n_def by linarith
    then have "0 < n" by simp
    from bitlen_bounds [OF this]
    have b: "2 ^ nat (bitlen n - 1) \<le> n" "n < 2 ^ nat (bitlen n)" by simp_all
    have b1: "1 \<le> bitlen n"
      using \<open>0 < n\<close> bitlen_eq_zero_iff [of n] bitlen_nonneg [of n] by linarith
    have e: "expo x = - bitlen n" using False by (simp add: expo_def n_def)
    have "n + 1 \<le> 2 ^ nat (bitlen n)" using b(2) by simp
    then have "(of_int (n + 1) :: rat) \<le> of_int (2 ^ nat (bitlen n))"
      by (simp only: of_int_le_iff)
    then have "of_int n + 1 \<le> (2 ^ nat (bitlen n) :: rat)" by simp
    then have "1 / x \<le> 2 ^ nat (bitlen n)" using n(2) by linarith
    then have "1 \<le> 2 ^ nat (bitlen n) * x"
      using assms by (simp add: field_simps)
    then have lo: "power_int 2 (expo x) \<le> x"
      using b1 unfolding e by (simp add: power_int_def field_simps)
    have "(of_int (2 ^ nat (bitlen n - 1)) :: rat) \<le> of_int n"
      using b(1) by (simp only: of_int_le_iff)
    then have "(2 ^ nat (bitlen n - 1) :: rat) \<le> of_int n" by simp
    then have "2 ^ nat (bitlen n - 1) < 1 / x" using n(1) by linarith
    then have hi': "2 ^ nat (bitlen n - 1) * x < 1"
      using assms by (simp add: field_simps)
    have "x < power_int 2 (expo x + 1)"
    proof (cases "bitlen n = 1")
      case True
      then show ?thesis using hi' e by simp
    next
      case False
      then have "nat (bitlen n - 1) = nat (- (- bitlen n + 1))" "\<not> 0 \<le> - bitlen n + 1"
        using b1 by simp_all
      then show ?thesis using hi' unfolding e
        by (simp add: power_int_def field_simps)
    qed
    with lo show ?thesis by simp
  qed
  then show "power_int 2 (expo x) \<le> x" and "x < power_int 2 (expo x + 1)" by simp_all
qed

lemma expo_mono:
  assumes "0 < x" "x \<le> y"
  shows "expo x \<le> expo y"
proof (rule ccontr)
  assume "\<not> expo x \<le> expo y"
  then have "expo y + 1 \<le> expo x" by simp
  then have "(power_int 2 (expo y + 1) :: rat) \<le> power_int 2 (expo x)"
    by (intro power_int_increasing) simp_all
  moreover have "y < power_int 2 (expo y + 1)" using assms by (intro expo_bounds) simp
  moreover have "power_int 2 (expo x) \<le> x" using assms by (intro expo_bounds)
  ultimately show False using assms by linarith
qed

lemma expo_eqI:
  assumes "power_int 2 e \<le> x" "x < power_int 2 (e + 1)"
  shows "expo x = e"
proof -
  have "(0::rat) < power_int 2 e" by simp
  with assms(1) have pos: "0 < x" by linarith
  have "\<not> expo x < e"
  proof
    assume "expo x < e"
    then have "(power_int 2 (expo x + 1) :: rat) \<le> power_int 2 e"
      by (intro power_int_increasing) simp_all
    with expo_bounds(2) [OF pos] assms(1) show False by linarith
  qed
  moreover have "\<not> e < expo x"
  proof
    assume "e < expo x"
    then have "(power_int 2 (e + 1) :: rat) \<le> power_int 2 (expo x)"
      by (intro power_int_increasing) simp_all
    with expo_bounds(1) [OF pos] assms(2) show False by linarith
  qed
  ultimately show ?thesis by simp
qed

lemma ulp_pos: "0 < ulp x"
  by (simp add: ulp_def)

lemma fl_zero: "fl 0 = 0"
  by (simp add: fl_def)

lemma fl_ge_grid:
  assumes "of_int k * ulp x \<le> x"
  shows "of_int k * ulp x \<le> fl x"
proof (cases "x = 0")
  case True
  with assms show ?thesis by (simp add: fl_def)
next
  case False
  have "of_int k \<le> x / ulp x"
    using assms ulp_pos [of x] by (simp add: field_simps)
  then have "k \<le> rne (x / ulp x)" by (rule rne_ge_int)
  then have "(of_int k :: rat) \<le> of_int (rne (x / ulp x))" by simp
  then show ?thesis
    using False ulp_pos [of x] by (simp add: fl_def)
qed

lemma fl_le_grid:
  assumes "x \<le> of_int k * ulp x"
  shows "fl x \<le> of_int k * ulp x"
proof (cases "x = 0")
  case True
  with assms show ?thesis by (simp add: fl_def)
next
  case False
  have "x / ulp x \<le> of_int k"
    using assms ulp_pos [of x] by (simp add: field_simps)
  then have "rne (x / ulp x) \<le> k" by (rule rne_le_int)
  then have "(of_int (rne (x / ulp x)) :: rat) \<le> of_int k" by simp
  then show ?thesis
    using False ulp_pos [of x] by (simp add: fl_def)
qed

lemma binade_grid:
  "of_int (2 ^ 52) * ulp x = power_int 2 (expo \<bar>x\<bar>)"
  "of_int (2 ^ 53) * ulp x = power_int 2 (expo \<bar>x\<bar> + 1)"
proof -
  have "(power_int 2 52 :: rat) * power_int 2 (expo \<bar>x\<bar> - 52) = power_int 2 (52 + (expo \<bar>x\<bar> - 52))"
    by (subst power_int_add) simp_all
  then show "of_int (2 ^ 52) * ulp x = power_int 2 (expo \<bar>x\<bar>)"
    by (simp add: ulp_def)
  have "(power_int 2 53 :: rat) * power_int 2 (expo \<bar>x\<bar> - 52) = power_int 2 (53 + (expo \<bar>x\<bar> - 52))"
    by (subst power_int_add) simp_all
  then show "of_int (2 ^ 53) * ulp x = power_int 2 (expo \<bar>x\<bar> + 1)"
    by (simp add: ulp_def add.commute)
qed

lemma fl_binade:
  assumes "0 < x"
  shows "power_int 2 (expo x) \<le> fl x" and "fl x \<le> power_int 2 (expo x + 1)"
proof -
  have a: "\<bar>x\<bar> = x" using assms by simp
  have "of_int (2 ^ 52) * ulp x \<le> x"
    unfolding binade_grid a using assms by (rule expo_bounds)
  from fl_ge_grid [OF this] show "power_int 2 (expo x) \<le> fl x"
    unfolding binade_grid a .
  have "x \<le> of_int (2 ^ 53) * ulp x"
    unfolding binade_grid a using expo_bounds(2) [OF assms] by simp
  from fl_le_grid [OF this] show "fl x \<le> power_int 2 (expo x + 1)"
    unfolding binade_grid a .
qed

lemma fl_pos:
  assumes "0 < x"
  shows "0 < fl x"
proof -
  have "(0::rat) < power_int 2 (expo x)" by simp
  with fl_binade(1) [OF assms] show ?thesis by linarith
qed

lemma fl_nonneg: "0 \<le> x \<Longrightarrow> 0 \<le> fl x"
  using fl_pos [of x] by (cases "x = 0") (simp_all add: fl_zero)

lemma fl_mono:
  assumes "0 \<le> x" "x \<le> y"
  shows "fl x \<le> fl y"
proof (cases "x = 0")
  case True
  with assms fl_nonneg [of y] show ?thesis by (simp add: fl_zero)
next
  case False
  with assms have pos: "0 < x" "0 < y" by simp_all
  then have abs: "\<bar>x\<bar> = x" "\<bar>y\<bar> = y" by simp_all
  have le: "expo x \<le> expo y" using pos(1) assms(2) by (rule expo_mono)
  show ?thesis
  proof (cases "expo x = expo y")
    case True
    then have u: "ulp y = ulp x" by (simp add: ulp_def abs)
    have "x / ulp x \<le> y / ulp x"
      using assms(2) ulp_pos [of x] by (simp add: divide_right_mono)
    then have "rne (x / ulp x) \<le> rne (y / ulp x)" by (rule rne_mono)
    then have "(of_int (rne (x / ulp x)) :: rat) \<le> of_int (rne (y / ulp x))" by simp
    then show ?thesis
      using pos ulp_pos [of x] by (simp add: fl_def u)
  next
    case False
    with le have "expo x + 1 \<le> expo y" by simp
    then have "(power_int 2 (expo x + 1) :: rat) \<le> power_int 2 (expo y)"
      by (intro power_int_increasing) simp_all
    with fl_binade(2) [OF pos(1)] fl_binade(1) [OF pos(2)] show ?thesis by linarith
  qed
qed

lemma fl_error:
  assumes "0 < x"
  shows "\<bar>fl x - x\<bar> \<le> x / 2 ^ 53"
proof -
  have abs: "\<bar>x\<bar> = x" using assms by simp
  have u: "0 < ulp x" by (rule ulp_pos)
  have "\<bar>fl x - x\<bar> = \<bar>of_int (rne (x / ulp x)) - x / ulp x\<bar> * ulp x"
  proof -
    have "fl x - x = (of_int (rne (x / ulp x)) - x / ulp x) * ulp x"
      using assms u by (simp add: fl_def field_simps)
    then show ?thesis using u by (simp add: abs_mult)
  qed
  also have "\<dots> \<le> 1 / 2 * ulp x"
    using rne_error [of "x / ulp x"] u by (intro mult_right_mono) simp_all
  also have "\<dots> = of_int (2 ^ 52) * ulp x / 2 ^ 53" by simp
  also have "\<dots> \<le> x / 2 ^ 53"
    unfolding binade_grid abs using expo_bounds(1) [OF assms]
    by (simp add: divide_right_mono)
  finally show ?thesis .
qed


lemma rne_eqI:
  assumes "\<bar>q - of_int m\<bar> < 1 / 2 \<or> (\<bar>q - of_int m\<bar> = 1 / 2 \<and> even m)"
  shows "rne q = m"
proof (cases "of_int m \<le> q")
  case True
  with assms have "q < of_int m + 1" by linarith
  with True have f: "\<lfloor>q\<rfloor> = m" by (intro floor_unique)
  from assms True have "q - of_int m < 1 / 2 \<or> (q - of_int m = 1 / 2 \<and> even m)"
    by linarith
  then show ?thesis by (auto simp: rne_def f)
next
  case False
  with assms have "of_int (m - 1) \<le> q" "q < of_int (m - 1) + 1" by simp_all linarith
  then have f: "\<lfloor>q\<rfloor> = m - 1" by (intro floor_unique)
  from assms False have "1 / 2 < q - of_int (m - 1) \<or> (q - of_int (m - 1) = 1 / 2 \<and> odd (m - 1))"
    by auto
  then show ?thesis by (auto simp: rne_def f)
qed

lemma fl_eval:
  assumes "power_int 2 e \<le> x" "x < power_int 2 (e + 1)"
    and "\<bar>x / power_int 2 (e - 52) - of_int m\<bar> < 1 / 2
         \<or> (\<bar>x / power_int 2 (e - 52) - of_int m\<bar> = 1 / 2 \<and> even m)"
  shows "fl x = of_int m * power_int 2 (e - 52)"
proof -
  have "(0::rat) < power_int 2 e" by simp
  with assms(1) have pos: "0 < x" by linarith
  have e: "expo x = e" using assms(1,2) by (rule expo_eqI)
  have "rne (x / power_int 2 (e - 52)) = m" using assms(3) by (rule rne_eqI)
  then show ?thesis using pos e by (simp add: fl_def ulp_def)
qed


text \<open>The float literals of the source, as the rationals their doubles denote.\<close>

lemma fl_literals:
  "fl (1 / 10) = 3602879701896397 / 36028797018963968"
  "fl (3 / 20) = 5404319552844595 / 36028797018963968"
  "fl (1 / 5) = 3602879701896397 / 18014398509481984"
  "fl (1 / 4) = 1 / 4"
  "fl (3 / 10) = 5404319552844595 / 18014398509481984"
  "fl (2 / 5) = 3602879701896397 / 9007199254740992"
  "fl (1 / 2) = 1 / 2"
  "fl (3 / 5) = 5404319552844595 / 9007199254740992"
  "fl (7 / 10) = 3152519739159347 / 4503599627370496"
  "fl (4 / 5) = 3602879701896397 / 4503599627370496"
  "fl (17 / 20) = 7656119366529843 / 9007199254740992"
  "fl (9 / 10) = 8106479329266893 / 9007199254740992"
  "fl (1) = 1"
  "fl (11 / 10) = 2476979795053773 / 2251799813685248"
  "fl (6 / 5) = 5404319552844595 / 4503599627370496"
  "fl (13 / 10) = 5854679515581645 / 4503599627370496"
  "fl (7 / 5) = 3152519739159347 / 2251799813685248"
  "fl (3 / 2) = 3 / 2"
  "fl (101 / 5) = 5685794529555251 / 281474976710656"
  "fl (45) = 45"
  "fl (50) = 50"
  "fl (301 / 5) = 4236198399495373 / 70368744177664"
  "fl (328 / 5) = 2308094809027379 / 35184372088832"
  "fl (823 / 10) = 5791347645821747 / 70368744177664"
  "fl (873 / 10) = 6143191366710067 / 70368744177664"
  "fl (97) = 97"
  "fl (100) = 100"
  subgoal using fl_eval [of "(- 4)" "1 / 10" "7205759403792794"] by simp
  subgoal using fl_eval [of "(- 3)" "3 / 20" "5404319552844595"] by simp
  subgoal using fl_eval [of "(- 3)" "1 / 5" "7205759403792794"] by simp
  subgoal using fl_eval [of "(- 2)" "1 / 4" "4503599627370496"] by simp
  subgoal using fl_eval [of "(- 2)" "3 / 10" "5404319552844595"] by simp
  subgoal using fl_eval [of "(- 2)" "2 / 5" "7205759403792794"] by simp
  subgoal using fl_eval [of "(- 1)" "1 / 2" "4503599627370496"] by simp
  subgoal using fl_eval [of "(- 1)" "3 / 5" "5404319552844595"] by simp
  subgoal using fl_eval [of "(- 1)" "7 / 10" "6305039478318694"] by simp
  subgoal using fl_eval [of "(- 1)" "4 / 5" "7205759403792794"] by simp
  subgoal using fl_eval [of "(- 1)" "17 / 20" "7656119366529843"] by simp
  subgoal using fl_eval [of "(- 1)" "9 / 10" "8106479329266893"] by simp
  subgoal using fl_eval [of "0" "1" "4503599627370496"] by simp
  subgoal using fl_eval [of "0" "11 / 10" "4953959590107546"] by simp
  subgoal using fl_eval [of "0" "6 / 5" "5404319552844595"] by simp
  subgoal using fl_eval [of "0" "13 / 10" "5854679515581645"] by simp
  subgoal using fl_eval [of "0" "7 / 5" "6305039478318694"] by simp
  subgoal using fl_eval [of "0" "3 / 2" "6755399441055744"] by simp
  subgoal using fl_eval [of "4" "101 / 5" "5685794529555251"] by simp
  subgoal using fl_eval [of "5" "45" "6333186975989760"] by simp
  subgoal using fl_eval [of "5" "50" "7036874417766400"] by simp
  subgoal using fl_eval [of "5" "301 / 5" "8472396798990746"] by simp
  subgoal using fl_eval [of "6" "328 / 5" "4616189618054758"] by simp
  subgoal using fl_eval [of "6" "823 / 10" "5791347645821747"] by simp
  subgoal using fl_eval [of "6" "873 / 10" "6143191366710067"] by simp
  subgoal using fl_eval [of "6" "97" "6825768185233408"] by simp
  subgoal using fl_eval [of "6" "100" "7036874417766400"] by simp
  done

lemma and_then_simps:
  "and_then (Inr v) k = k v" "and_then (Inl e) k = Inl e"
  by (simp_all add: and_then_def)

lemma weights_subscripts:
  "subscript weights ''pattern_weight'' = Inr (fl 0.25)"
  "subscript weights ''history_weight'' = Inr (fl 0.20)"
  "subscript weights ''time_weight'' = Inr (fl 0.15)"
  "subscript weights ''age_weight'' = Inr (fl 0.10)"
  "subscript weights ''social_weight'' = Inr (fl 0.15)"
  "subscript weights ''escalation_weight'' = Inr (fl 0.15)"
  by (simp_all add: subscript_def weights_def)

lemma fl_example:
  "fl (1 / 10) = 3602879701896397 / 36028797018963968"
  "fl (3 / 20) = 5404319552844595 / 36028797018963968"
  "fl (1 / 5) = 3602879701896397 / 18014398509481984"
  "fl (1 / 4) = 1 / 4"
  "fl (5404319552844595 / 18014398509481984) = 5404319552844595 / 18014398509481984"
  "fl (2 / 5) = 3602879701896397 / 9007199254740992"
  "fl (5404319552844595 / 9007199254740992) = 5404319552844595 / 9007199254740992"
  "fl (25220157913274779 / 36028797018963968) = 6305039478318695 / 9007199254740992"
  "fl (4 / 5) = 3602879701896397 / 4503599627370496"
  "fl (3602879701896397 / 4503599627370496) = 3602879701896397 / 4503599627370496"
  "fl (19471113219505603967277331424215 / 20282409603651670423947251286016) = 1080863910568919 / 1125899906842624"
  "fl (5404319552844595 / 4503599627370496) = 5404319552844595 / 4503599627370496"
  "fl (2) = 2"
  "fl (3332663724254167 / 1125899906842624) = 3332663724254167 / 1125899906842624"
  "fl (18734974449861263 / 4503599627370496) = 1170935903116329 / 281474976710656"
  "fl (21617278211378381 / 4503599627370496) = 5404319552844595 / 1125899906842624"
  "fl (43774988378041223 / 9007199254740992) = 5471873547255153 / 1125899906842624"
  "fl (49179307930885819 / 9007199254740992) = 6147413491360727 / 1125899906842624"
  "fl (103762935414616227 / 18014398509481984) = 3242591731706757 / 562949953421312"
  "fl (18014398509481985 / 2251799813685248) = 8"
  subgoal using fl_eval [of "(- 4)" "1 / 10" "7205759403792794"] by simp
  subgoal using fl_eval [of "(- 3)" "3 / 20" "5404319552844595"] by simp
  subgoal using fl_eval [of "(- 3)" "1 / 5" "7205759403792794"] by simp
  subgoal using fl_eval [of "(- 2)" "1 / 4" "4503599627370496"] by simp
  subgoal using fl_eval [of "(- 2)" "5404319552844595 / 18014398509481984" "5404319552844595"] by simp
  subgoal using fl_eval [of "(- 2)" "2 / 5" "7205759403792794"] by simp
  subgoal using fl_eval [of "(- 1)" "5404319552844595 / 9007199254740992" "5404319552844595"] by simp
  subgoal using fl_eval [of "(- 1)" "25220157913274779 / 36028797018963968" "6305039478318695"] by simp
  subgoal using fl_eval [of "(- 1)" "4 / 5" "7205759403792794"] by simp
  subgoal using fl_eval [of "(- 1)" "3602879701896397 / 4503599627370496" "7205759403792794"] by simp
  subgoal using fl_eval [of "(- 1)" "19471113219505603967277331424215 / 20282409603651670423947251286016" "8646911284551352"] by simp
  subgoal using fl_eval [of "0" "5404319552844595 / 4503599627370496" "5404319552844595"] by simp
  subgoal using fl_eval [of "1" "2" "4503599627370496"] by simp
  subgoal using fl_eval [of "1" "3332663724254167 / 1125899906842624" "6665327448508334"] by simp
  subgoal using fl_eval [of "2" "18734974449861263 / 4503599627370496" "4683743612465316"] by simp
  subgoal using fl_eval [of "2" "21617278211378381 / 4503599627370496" "5404319552844595"] by simp
  subgoal using fl_eval [of "2" "43774988378041223 / 9007199254740992" "5471873547255153"] by simp
  subgoal using fl_eval [of "2" "49179307930885819 / 9007199254740992" "6147413491360727"] by simp
  subgoal using fl_eval [of "2" "103762935414616227 / 18014398509481984" "6485183463413514"] by simp
  subgoal using fl_eval [of "3" "18014398509481985 / 2251799813685248" "4503599627370496"] by simp
  done

lemma example_subscores:
  "calculate_history_score example_record = Inr (5404319552844595 / 1125899906842624)"
  "calculate_time_score example_record = 8"
  "calculate_age_score example_record = 7"
  "calculate_social_score example_record = 4"
  "calculate_escalation_score example_record = 2"
  "get (pattern_type example_record) ''unknown'' = ''mixed_unstable''"
  by (simp_all add: calculate_history_score_def truediv_def overflows_def and_then_simps
      calculate_time_score_def calculate_age_score_def calculate_social_score_def
      calculate_escalation_score_def example_record_def get_def fadd_def fmul_def fl_example)

lemma risk_score_unfold:
  assumes "calculate_history_score data = Inr h"
  shows "calculate_risk_score data =
    Inr (max 0 (min 10 (py_sum
          [fmul (fmul (dict_get pattern_risks (get (pattern_type data) ''unknown'') (fl 0.5)) 10) (fl 0.25),
           fmul h (fl 0.20),
           fmul (of_int (calculate_time_score data)) (fl 0.15),
           fmul (of_int (calculate_age_score data)) (fl 0.10),
           fmul (of_int (calculate_social_score data)) (fl 0.15),
           fmul (of_int (calculate_escalation_score data)) (fl 0.15)])),
         [(''pattern'', fmul (fmul (dict_get pattern_risks (get (pattern_type data) ''unknown'') (fl 0.5)) 10) (fl 0.25)),
          (''history'', fmul h (fl 0.20)),
          (''time'', fmul (of_int (calculate_time_score data)) (fl 0.15)),
          (''age'', fmul (of_int (calculate_age_score data)) (fl 0.10)),
          (''social'', fmul (of_int (calculate_social_score data)) (fl 0.15)),
          (''escalation'', fmul (of_int (calculate_escalation_score data)) (fl 0.15))])"
  unfolding calculate_risk_score_def Let_def weights_subscripts and_then_simps assms
  by simp

lemma example_value:
  "calculate_risk_score example_record =
     Inr (3242591731706757 / 562949953421312,
      [(''pattern'', 2), (''history'', 1080863910568919 / 1125899906842624),
       (''time'', 5404319552844595 / 4503599627370496),
       (''age'', 6305039478318695 / 9007199254740992),
       (''social'', 5404319552844595 / 9007199254740992),
       (''escalation'', 5404319552844595 / 18014398509481984)])"
  unfolding risk_score_unfold [OF example_subscores(1)] example_subscores
  by (simp add: dict_get_def pattern_risks_def py_sum_def fadd_def fmul_def fl_example)

text \<open>
  C2. On the example record of the specification, \<^verbatim>\<open>calculate_risk_score\<close> returns a
  score within 0.001 of 5.760, and \<^verbatim>\<open>get_risk_level\<close> maps that score to the
  "high" level (Vysokiy) with its recommendation.
\<close>

theorem example_score_and_level:
  "\<exists>s c. calculate_risk_score example_record = Inr (s, c) \<and> \<bar>s - 5.760\<bar> \<le> 1 / 1000 \<and>
     get_risk_level s = (''(yellow) Vysokiy'', ''Usilennyy kontrol i monitoring'')"
  by (rule exI, rule exI, rule conjI, rule example_value) (simp add: get_risk_level_def)

subsection \<open>When the scorer returns\<close>

lemma risk_score_raises:
  assumes "calculate_history_score data = Inl e"
  shows "calculate_risk_score data = Inl e"
  unfolding calculate_risk_score_def Let_def weights_subscripts and_then_simps assms
  by (rule refl)

lemma history_returns:
  assumes "quotient_in_range data"
  shows "\<exists>h. calculate_history_score data = Inr h"
  using assms
  by (auto simp: calculate_history_score_def quotient_in_range_def Let_def truediv_def
      and_then_simps)

lemma history_overflows:
  assumes "\<not> quotient_in_range data"
  shows "calculate_history_score data = Inl OverflowError"
  using assms
  by (auto simp: calculate_history_score_def quotient_in_range_def Let_def truediv_def
      and_then_simps)

lemma history_no_zero_division: "calculate_history_score data \<noteq> Inl ZeroDivisionError"
proof (cases "quotient_in_range data")
  case True
  from history_returns [OF this] show ?thesis by auto
next
  case False
  from history_overflows [OF this] show ?thesis by simp
qed

lemma risk_score_returns:
  assumes "quotient_in_range data"
  shows "\<exists>s c. calculate_risk_score data = Inr (s, c)"
proof -
  obtain h where "calculate_history_score data = Inr h"
    using history_returns [OF assms] by blast
  from risk_score_unfold [OF this] show ?thesis by blast
qed

lemma validated_counts_in_range:
  assumes "get (criminal_count data) 0 \<le> get (total_cases data) 0"
  shows "quotient_in_range data"
proof (cases "get (total_cases data) 0 = 0 \<or> get (criminal_count data) 0 \<le> 0")
  case True
  then show ?thesis by (auto simp: quotient_in_range_def)
next
  case False
  define c :: rat where "c = of_int (get (criminal_count data) 0)"
  define t :: rat where "t = of_int (get (total_cases data) 0)"
  from False assms have "0 < c" "c \<le> t" by (simp_all add: c_def t_def)
  then have q: "0 \<le> c / t" "c / t \<le> 1" by simp_all
  have "fl (c / t) \<le> fl 1" using q by (rule fl_mono)
  moreover have "0 \<le> fl (c / t)" using q(1) by (rule fl_nonneg)
  ultimately have "\<bar>fl (c / t)\<bar> \<le> 1" by (simp add: fl_literals)
  then have "\<not> overflows (fl (c / t))" by (simp add: overflows_def)
  then show ?thesis by (simp add: quotient_in_range_def c_def t_def)
qed

lemma fl_two_power_1024: "fl (2 ^ 1024) = 2 ^ 1024"
  using fl_eval [of 1024 "2 ^ 1024" "2 ^ 52"] by simp

text \<open>
  C4, as stated, fails. A record with one case and \<open>2^1024\<close> criminal cases lies in the
  input domain of section 3, whose bound of the criminal count by the total is advisory
  only; the quotient exceeds every double, the division raises
  \<^verbatim>\<open>OverflowError\<close>, and with it the history sub-score and the scorer.
\<close>

theorem scoring_overflow_counterexample:
  "in_domain overflow_record
   \<and> calculate_history_score overflow_record = Inl OverflowError
   \<and> calculate_risk_score overflow_record = Inl OverflowError"
proof -
  have d: "in_domain overflow_record"
    by (simp add: in_domain_def overflow_record_def get_def)
  have "\<not> quotient_in_range overflow_record"
    by (simp add: quotient_in_range_def overflow_record_def get_def overflows_def
        fl_two_power_1024 [simplified])
  then have h: "calculate_history_score overflow_record = Inl OverflowError"
    by (rule history_overflows)
  from d h risk_score_raises [OF h] show ?thesis by simp
qed

text \<open>
  C4, amended. \<^verbatim>\<open>calculate_risk_score\<close> and its history sub-score return a value, and
  so never raise, on every record whose quotient \<^verbatim>\<open>criminal_count / total_cases\<close> is not
  too large for a float; a record with \<^verbatim>\<open>criminal_count \<le> total_cases\<close>, which is what
  the callers admit, is such a record. The other five sub-scores are step functions
  with a final else branch. The division is never a division by zero: when
  \<^verbatim>\<open>total_cases\<close> is 0, or absent and so defaulted to 0, the history sub-score returns
  0 before the division is reached.
\<close>

theorem scoring_returns_in_range:
  "(quotient_in_range data \<longrightarrow>
      (\<exists>s c. calculate_risk_score data = Inr (s, c))
      \<and> (\<exists>h. calculate_history_score data = Inr h))
   \<and> (get (criminal_count data) 0 \<le> get (total_cases data) 0 \<longrightarrow> quotient_in_range data)
   \<and> calculate_history_score (data\<lparr>total_cases := Some 0\<rparr>) = Inr 0
   \<and> calculate_history_score (data\<lparr>total_cases := None\<rparr>) = Inr 0
   \<and> calculate_history_score data \<noteq> Inl ZeroDivisionError"
proof -
  have "calculate_history_score (data\<lparr>total_cases := Some 0\<rparr>) = Inr 0"
    "calculate_history_score (data\<lparr>total_cases := None\<rparr>) = Inr 0"
    by (simp_all add: calculate_history_score_def get_def)
  with risk_score_returns [of data] history_returns [of data]
    validated_counts_in_range [of data] history_no_zero_division [of data]
  show ?thesis by blast
qed

theorem scoring_returns_in_range_witness:
  "quotient_in_range example_record
   \<and> get (criminal_count example_record) 0 \<le> get (total_cases example_record) 0
   \<and> (\<exists>s c. calculate_risk_score example_record = Inr (s, c))
   \<and> (\<exists>h. calculate_history_score example_record = Inr h)"
proof -
  have c: "get (criminal_count example_record) 0 \<le> get (total_cases example_record) 0"
    by (simp add: example_record_def get_def)
  from scoring_returns_in_range [of example_record] c show ?thesis by blast
qed

section \<open>The forecaster, step by step\<close>

lemma probability_unfold:
  assumes "calculate_risk_score data = Inr (s, c)"
  shows "calculate_crime_probability data crime d =
    Inr (max 5 (min 95
      (fmul (fmul (fmul (dict_get base_probabilities crime (fl 50.0)) (fl (s / 10)))
         (if of_int d < fmul (of_int (dict_get time_windows crime 140)) (fl 0.5) then fl 0.6
          else if d < dict_get time_windows crime 140 then fl 0.8
          else if of_int d < fmul (of_int (dict_get time_windows crime 140)) (fl 1.5) then fl 1.0
          else fl 0.7))
         (if get (pattern_type data) ''unknown'' = ''chronic_criminal''
             \<and> crime \<in> set [''Krazha'', ''Grabezh'']
          then fl 1.3
          else if get (pattern_type data) ''unknown'' = ''escalating''
             \<and> crime \<in> set [''Grabezh'', ''Razboy'']
          then fl 1.2
          else if get (pattern_type data) ''unknown'' = ''mixed_unstable'' then fl 1.1
          else fl 1.0))))"
  unfolding calculate_crime_probability_def assms and_then_simps Let_def prod.case
  by (rule refl)

lemma probability_raises:
  assumes "calculate_risk_score data = Inl e"
  shows "calculate_crime_probability data crime d = Inl e"
  unfolding calculate_crime_probability_def assms and_then_simps Let_def
  by (rule refl)

lemma probability_total:
  assumes "quotient_in_range data"
  shows "\<exists>p. calculate_crime_probability data crime d = Inr p \<and> 5 \<le> p \<and> p \<le> 95"
proof -
  obtain s c where "calculate_risk_score data = Inr (s, c)"
    using risk_score_returns [OF assms] by blast
  then have "\<exists>x. calculate_crime_probability data crime d = Inr (max 5 (min 95 x))"
    by (intro exI) (rule probability_unfold)
  then obtain x where "calculate_crime_probability data crime d = Inr (max 5 (min 95 x))" ..
  moreover have "5 \<le> max 5 (min 95 x)" "max 5 (min 95 x) \<le> 95" by simp_all
  ultimately show ?thesis by blast
qed

lemma single_unfold:
  fixes B :: int and data :: person_data and crime :: string
  defines "D \<equiv> max 30 (min 365 (trunc
      (fmul (fmul (fmul (of_int B) (get_age_modifier data)) (get_pattern_modifier data crime))
         (get_social_modifier data))))"
  assumes "calculate_crime_probability data crime D = Inr p"
  shows "calculate_single_forecast now data crime B =
     Inr \<lparr> crime_type = crime, days = D, date = now + D, probability = p,
           ci_lower = trunc (fmul (of_int D) (fl 0.7)),
           ci_upper = trunc (fmul (of_int D) (fl 1.4)),
           confidence = calculate_confidence data crime,
           risk_level = get_timeline_risk_level D \<rparr>"
  unfolding calculate_single_forecast_def calculate_single_forecast_from_def Let_def
    int_of_float_def forecast_days_try_def
    sum.case and_then_simps D_def assms(2) [unfolded D_def]
  by (rule refl)

lemma single_raises:
  assumes "\<And>d. calculate_crime_probability data crime d = Inl e"
  shows "calculate_single_forecast now data crime B = Inl e"
  unfolding calculate_single_forecast_def calculate_single_forecast_from_def Let_def
    int_of_float_def forecast_days_try_def sum.case and_then_simps assms
  by (rule refl)

lemma single_overflows:
  assumes "\<not> quotient_in_range data"
  shows "calculate_single_forecast now data crime B = Inl OverflowError"
proof -
  from assms have "calculate_history_score data = Inl OverflowError" by (rule history_overflows)
  then have "calculate_risk_score data = Inl OverflowError" by (rule risk_score_raises)
  then have "calculate_crime_probability data crime d = Inl OverflowError" for d
    by (rule probability_raises)
  then show ?thesis by (rule single_raises)
qed

lemma single_total:
  assumes "quotient_in_range data"
  shows "\<exists>f. calculate_single_forecast now data crime B = Inr f"
proof -
  obtain p where "calculate_crime_probability data crime
      (max 30 (min 365 (trunc
      (fmul (fmul (fmul (of_int B) (get_age_modifier data)) (get_pattern_modifier data crime))
         (get_social_modifier data))))) = Inr p"
    using probability_total [OF assms] by blast
  from single_unfold [OF this] show ?thesis by blast
qed



lemma update_fresh: "k \<notin> fst ` set al \<Longrightarrow> AList.update k v al = al @ [(k, v)]"
  by (induction al) auto

lemma set_update_subset: "set (AList.update k v al) \<subseteq> insert (k, v) (set al)"
  by (induction al) auto

lemma map_apsnd_update:
  "map (apsnd g) (AList.update k v al) = AList.update k (g v) (map (apsnd g) al)"
  by (induction al) auto

lemma foldl_update_distinct:
  "distinct (map fst (acc @ xs)) \<Longrightarrow>
   foldl (\<lambda>d (k, v). AList.update k v d) acc xs = acc @ xs"
proof (induction xs arbitrary: acc)
  case Nil
  then show ?case by simp
next
  case (Cons x xs)
  obtain k v where x: "x = (k, v)" by (cases x)
  from Cons.prems have "k \<notin> fst ` set acc" by (auto simp: x)
  then have u: "AList.update k v acc = acc @ [(k, v)]" by (rule update_fresh)
  from Cons.prems have "distinct (map fst ((acc @ [(k, v)]) @ xs))" by (simp add: x)
  from Cons.IH [OF this] show ?case by (simp add: x u)
qed

lemma dict_of_distinct: "distinct (map fst xs) \<Longrightarrow> dict_of xs = xs"
  using foldl_update_distinct [of "[]" xs] by (simp add: dict_of_def)

lemma foldl_update_apsnd:
  "map (apsnd g) (foldl (\<lambda>d (k, v). AList.update k v d) acc xs) =
   foldl (\<lambda>d (k, v). AList.update k v d) (map (apsnd g) acc) (map (apsnd g) xs)"
  by (induction xs arbitrary: acc) (auto simp: map_apsnd_update)

lemma dict_of_apsnd: "map (apsnd g) (dict_of xs) = dict_of (map (apsnd g) xs)"
  by (simp add: dict_of_def foldl_update_apsnd)

lemma insort_key_apsnd:
  assumes "\<And>x. h (apsnd g x) = f x"
  shows "map (apsnd g) (insort_key f x xs) = insort_key h (apsnd g x) (map (apsnd g) xs)"
  by (induction xs) (simp_all add: assms)

lemma sort_key_apsnd:
  assumes "\<And>x. h (apsnd g x) = f x"
  shows "map (apsnd g) (sort_key f xs) = sort_key h (map (apsnd g) xs)"
  by (induction xs) (simp_all add: insort_key_apsnd [where h = h, OF assms])

lemma distinct_keys_insort_key:
  "distinct (map fst (insort_key f x xs)) \<longleftrightarrow> fst x \<notin> fst ` set xs \<and> distinct (map fst xs)"
  by (induction xs) (auto simp: set_insort_key)

lemma distinct_keys_sort_key:
  "distinct (map fst (sort_key f xs)) = distinct (map fst xs)"
  by (induction xs) (simp_all add: distinct_keys_insort_key)

lemma loop_result:
  assumes q: "quotient_in_range data"
  shows "\<exists>fs. forecast_loop now data ws acc = Inr fs
     \<and> fst ` set fs = fst ` set acc \<union> fst ` set ws
     \<and> (distinct (map fst acc) \<longrightarrow> distinct (map fst fs))
     \<and> (\<forall>(k, f) \<in> set fs. (k, f) \<in> set acc
           \<or> (\<exists>B. (k, B) \<in> set ws \<and> calculate_single_forecast now data k B = Inr f))"
proof (induction ws arbitrary: acc)
  case Nil
  then show ?case by auto
next
  case (Cons w ws)
  obtain crime B where w: "w = (crime, B)" by (cases w)
  obtain f where f: "calculate_single_forecast now data crime B = Inr f"
    using single_total [OF q] by blast
  from Cons.IH [of "AList.update crime f acc"]
  obtain fs where fs: "forecast_loop now data ws (AList.update crime f acc) = Inr fs"
    "fst ` set fs = fst ` set (AList.update crime f acc) \<union> fst ` set ws"
    "distinct (map fst (AList.update crime f acc)) \<longrightarrow> distinct (map fst fs)"
    "\<forall>(k, g) \<in> set fs. (k, g) \<in> set (AList.update crime f acc)
           \<or> (\<exists>B. (k, B) \<in> set ws \<and> calculate_single_forecast now data k B = Inr g)"
    by blast
  have 1: "forecast_loop now data (w # ws) acc = Inr fs"
    by (simp add: w f fs(1) and_then_simps)
  have 2: "fst ` set fs = fst ` set acc \<union> fst ` set (w # ws)"
    using fs(2) by (auto simp: w dom_update)
  have 3: "distinct (map fst acc) \<longrightarrow> distinct (map fst fs)"
    using fs(3) by (simp add: distinct_update)
  have 4: "\<forall>(k, g) \<in> set fs. (k, g) \<in> set acc
           \<or> (\<exists>B. (k, B) \<in> set (w # ws) \<and> calculate_single_forecast now data k B = Inr g)"
  proof (clarify)
    fix k g
    assume in_fs: "(k, g) \<in> set fs"
      and no: "\<not> (\<exists>B. (k, B) \<in> set (w # ws) \<and> calculate_single_forecast now data k B = Inr g)"
    from fs(4) in_fs have "(k, g) \<in> set (AList.update crime f acc)
           \<or> (\<exists>B. (k, B) \<in> set ws \<and> calculate_single_forecast now data k B = Inr g)"
      by blast
    with no have "(k, g) \<in> set (AList.update crime f acc)" by auto
    with set_update_subset [of crime f acc] have "(k, g) = (crime, f) \<or> (k, g) \<in> set acc"
      by blast
    with no f show "(k, g) \<in> set acc" by (auto simp: w)
  qed
  from 1 2 3 4 show ?case by blast
qed

lemma timeline_result:
  assumes q: "quotient_in_range data"
  shows "\<exists>fs. forecast_crime_timeline now data = Inr fs
     \<and> set (map fst fs) = set (map fst base_windows)
     \<and> distinct (map fst fs)
     \<and> sorted (map (\<lambda>x. days (snd x)) fs)
     \<and> (\<forall>(k, f) \<in> set fs.
           \<exists>B. (k, B) \<in> set base_windows \<and> calculate_single_forecast now data k B = Inr f)"
proof -
  from loop_result [OF q, of now base_windows "[]"]
  obtain fs where fs: "forecast_loop now data base_windows [] = Inr fs"
    "fst ` set fs = fst ` set base_windows" "distinct (map fst fs)"
    "\<forall>(k, f) \<in> set fs.
       \<exists>B. (k, B) \<in> set base_windows \<and> calculate_single_forecast now data k B = Inr f"
    by auto
  let ?sorted = "sort_key (\<lambda>x. days (snd x)) fs"
  have d: "distinct (map fst ?sorted)" using fs(3) by (simp only: distinct_keys_sort_key)
  have t: "forecast_crime_timeline now data = Inr ?sorted"
    by (simp add: forecast_crime_timeline_def fs(1) and_then_simps dict_of_distinct [OF d])
  have "set (map fst ?sorted) = set (map fst base_windows)" using fs(2) by simp
  moreover have "sorted (map (\<lambda>x. days (snd x)) ?sorted)" by (rule sorted_sort_key)
  moreover have "\<forall>(k, f) \<in> set ?sorted.
       \<exists>B. (k, B) \<in> set base_windows \<and> calculate_single_forecast now data k B = Inr f"
    using fs(4) by simp
  ultimately show ?thesis using t d by blast
qed


subsection \<open>The two copies\<close>

lemma tables_svc:
  "RISK_WEIGHTS = weights" "PATTERN_RISKS = pattern_risks" "CRIME_TIME_WINDOWS = base_windows"
  "modifiers_svc = modifiers"
  unfolding RISK_WEIGHTS_def weights_def PATTERN_RISKS_def pattern_risks_def
      CRIME_TIME_WINDOWS_def base_windows_def modifiers_svc_def modifiers_def
  by (rule refl)+

lemma prevention_rates_get: "dict_get PREVENTION_RATES c d = dict_get base_probabilities c d"
  by (simp add: dict_get_def PREVENTION_RATES_def base_probabilities_def)

lemma time_windows_get: "dict_get CRIME_TIME_WINDOWS c d = dict_get time_windows c d"
  by (simp add: dict_get_def CRIME_TIME_WINDOWS_def time_windows_def)

lemma subscores_svc:
  "calculate_history_score_svc data = calculate_history_score data"
  "calculate_time_score_svc data = calculate_time_score data"
  "calculate_age_score_svc data = calculate_age_score data"
  "calculate_social_score_svc data = calculate_social_score data"
  "calculate_escalation_score_svc data = calculate_escalation_score data"
  unfolding calculate_history_score_svc_def calculate_history_score_def
     calculate_time_score_svc_def calculate_time_score_def
     calculate_age_score_svc_def calculate_age_score_def
     calculate_social_score_svc_def calculate_social_score_def
     calculate_escalation_score_svc_def calculate_escalation_score_def
  by (rule refl)+

lemma risk_score_svc: "calculate_risk_score_svc data = calculate_risk_score data"
  unfolding calculate_risk_score_svc_def calculate_risk_score_def tables_svc subscores_svc
  by (rule refl)

lemma risk_level_svc: "get_risk_level_svc s = get_risk_level s"
  unfolding get_risk_level_svc_def get_risk_level_def by (rule refl)

lemma probability_svc:
  "calculate_crime_probability_svc data crime d = calculate_crime_probability data crime d"
  unfolding calculate_crime_probability_svc_def calculate_crime_probability_def
      risk_score_svc prevention_rates_get time_windows_get
  by (rule refl)

lemma modifiers_svc_eq:
  "get_age_modifier_svc data = get_age_modifier data"
  "get_pattern_modifier_svc data crime = get_pattern_modifier data crime"
  "get_social_modifier_svc data = get_social_modifier data"
  "calculate_confidence_svc data crime = calculate_confidence data crime"
  "get_timeline_risk_level_svc d = get_timeline_risk_level d"
  "forecast_days_try_svc r b = forecast_days_try r b"
  unfolding get_age_modifier_svc_def get_age_modifier_def
      get_pattern_modifier_svc_def get_pattern_modifier_def tables_svc
      get_social_modifier_svc_def get_social_modifier_def
      calculate_confidence_svc_def calculate_confidence_def
      get_timeline_risk_level_svc_def get_timeline_risk_level_def
      forecast_days_try_svc_def forecast_days_try_def
  by (rule refl)+

lemma single_from_svc:
  "calculate_single_forecast_from_svc r now data crime b =
     calculate_single_forecast_from r now data crime b"
  unfolding calculate_single_forecast_from_svc_def calculate_single_forecast_from_def
      probability_svc modifiers_svc_eq
  by (rule refl)

lemma single_svc:
  "calculate_single_forecast_svc now data crime b = calculate_single_forecast now data crime b"
  unfolding calculate_single_forecast_svc_def calculate_single_forecast_def
      single_from_svc modifiers_svc_eq
  by (rule refl)

lemma loop_svc: "forecast_loop_svc now data ws acc = forecast_loop now data ws acc"
  by (induction now data ws acc rule: forecast_loop.induct) (simp_all add: single_svc)

lemma timeline_svc: "forecast_crime_timeline_svc now data = forecast_crime_timeline now data"
  unfolding forecast_crime_timeline_svc_def forecast_crime_timeline_def loop_svc tables_svc
  by (rule refl)

lemma single_entry_shape:
  assumes "quotient_in_range data"
  shows "\<exists>D p lo hi cf rl. \<forall>now. calculate_single_forecast now data crime B =
     Inr \<lparr> crime_type = crime, days = D, date = now + D, probability = p,
           ci_lower = lo, ci_upper = hi, confidence = cf, risk_level = rl \<rparr>"
proof -
  obtain p where "calculate_crime_probability data crime
      (max 30 (min 365 (trunc
      (fmul (fmul (fmul (of_int B) (get_age_modifier data)) (get_pattern_modifier data crime))
         (get_social_modifier data))))) = Inr p"
    using probability_total [OF assms] by blast
  then show ?thesis by (intro exI allI) (rule single_unfold)
qed

lemma single_without_date:
  "(\<exists>e. calculate_single_forecast now data crime B = Inl e
      \<and> calculate_single_forecast now' data crime B = Inl e)
   \<or> (\<exists>f f'. calculate_single_forecast now data crime B = Inr f
      \<and> calculate_single_forecast now' data crime B = Inr f'
      \<and> without_date f = without_date f')"
proof (cases "quotient_in_range data")
  case True
  from single_entry_shape [OF True, of crime B]
  obtain D p lo hi cf rl where "\<forall>now. calculate_single_forecast now data crime B =
     Inr \<lparr> crime_type = crime, days = D, date = now + D, probability = p,
           ci_lower = lo, ci_upper = hi, confidence = cf, risk_level = rl \<rparr>"
    by blast
  then show ?thesis by (simp add: without_date_def)
next
  case False
  then show ?thesis by (simp add: single_overflows)
qed

lemma loop_without_date:
  "map (apsnd without_date) acc = map (apsnd without_date) acc' \<Longrightarrow>
   map_sum id (map (apsnd without_date)) (forecast_loop now data ws acc) =
   map_sum id (map (apsnd without_date)) (forecast_loop now' data ws acc')"
proof (induction ws arbitrary: acc acc')
  case Nil
  then show ?case by simp
next
  case (Cons w ws)
  obtain crime B where w: "w = (crime, B)" by (cases w)
  from single_without_date [of now data crime B now']
  consider (raises) e where "calculate_single_forecast now data crime B = Inl e"
      "calculate_single_forecast now' data crime B = Inl e"
    | (returns) f f' where "calculate_single_forecast now data crime B = Inr f"
      "calculate_single_forecast now' data crime B = Inr f'" "without_date f = without_date f'"
    by blast
  then show ?case
  proof cases
    case raises
    then show ?thesis by (simp add: w and_then_simps)
  next
    case returns
    have "map (apsnd without_date) (AList.update crime f acc) =
          map (apsnd without_date) (AList.update crime f' acc')"
      by (simp add: map_apsnd_update Cons.prems returns(3))
    from Cons.IH [OF this] show ?thesis by (simp add: w returns(1,2) and_then_simps)
  qed
qed

lemma timeline_without_date:
  "map_sum id (map (apsnd without_date)) (forecast_crime_timeline now data) =
   map_sum id (map (apsnd without_date)) (forecast_crime_timeline now' data)"
proof -
  have loops: "map_sum id (map (apsnd without_date)) (forecast_loop now data base_windows []) =
      map_sum id (map (apsnd without_date)) (forecast_loop now' data base_windows [])"
    by (rule loop_without_date) simp
  have key: "fst (snd (snd (apsnd without_date x))) = days (snd x)" for x :: "string \<times> forecast"
    by (cases x) (simp add: without_date_def)
  have view: "map (apsnd without_date) (dict_of (sort_key (\<lambda>x. days (snd x)) gs)) =
      dict_of (sort_key (\<lambda>x. fst (snd (snd x))) (map (apsnd without_date) gs))" for gs
    unfolding dict_of_apsnd
    by (simp add: sort_key_apsnd [where h = "\<lambda>x. fst (snd (snd x))", OF key])
  show ?thesis
  proof (cases "forecast_loop now data base_windows []")
    case (Inl e)
    with loops have "forecast_loop now' data base_windows [] = Inl e"
      by (cases "forecast_loop now' data base_windows []") simp_all
    with Inl show ?thesis by (simp add: forecast_crime_timeline_def and_then_simps)
  next
    case (Inr fs)
    with loops obtain fs' where fs': "forecast_loop now' data base_windows [] = Inr fs'"
      and same: "map (apsnd without_date) fs = map (apsnd without_date) fs'"
      by (cases "forecast_loop now' data base_windows []") simp_all
    show ?thesis
      by (simp add: forecast_crime_timeline_def Inr fs' and_then_simps view same)
  qed
qed

text \<open>
  C1. The classes of \<^verbatim>\<open>utils/risk_calculator.py\<close> and their ported copies in
  \<^verbatim>\<open>risk_service.py\<close> return the same results on every record: the same score and
  components (or the same exception), the same level and recommendation, the same
  crime probability, and forecast maps with the same keys in the same order whose
  entries agree on every field but \<open>date\<close>, whatever the two clock readings are.
\<close>

theorem ported_copies_agree:
  "calculate_risk_score_svc data = calculate_risk_score data
   \<and> get_risk_level_svc s = get_risk_level s
   \<and> calculate_crime_probability_svc data crime days_ahead =
       calculate_crime_probability data crime days_ahead
   \<and> map_sum id (map (apsnd without_date)) (forecast_crime_timeline_svc now' data) =
       map_sum id (map (apsnd without_date)) (forecast_crime_timeline now data)"
  unfolding risk_score_svc risk_level_svc probability_svc timeline_svc
  using timeline_without_date [of now' data now] by simp

text \<open>
  C8. In both copies \<^verbatim>\<open>forecast_crime_timeline\<close> returns a map whose keys are exactly
  the eight keys of \<^verbatim>\<open>CRIME_TIME_WINDOWS\<close>, each once, with the entries in ascending
  order of their \<open>days\<close>. It returns whenever the scorer does, that is, on every record
  whose quotient \<^verbatim>\<open>criminal_count / total_cases\<close> is not too large for a float.
\<close>

theorem timeline_keys_sorted:
  assumes "quotient_in_range data"
  shows "(\<exists>fs. forecast_crime_timeline now data = Inr fs
      \<and> set (map fst fs) = set (map fst CRIME_TIME_WINDOWS)
      \<and> distinct (map fst fs) \<and> length fs = 8
      \<and> sorted (map (\<lambda>x. days (snd x)) fs))
   \<and> (\<exists>fs. forecast_crime_timeline_svc now data = Inr fs
      \<and> set (map fst fs) = set (map fst CRIME_TIME_WINDOWS)
      \<and> distinct (map fst fs) \<and> length fs = 8
      \<and> sorted (map (\<lambda>x. days (snd x)) fs))"
proof -
  from timeline_result [OF assms, of now]
  obtain fs where fs: "forecast_crime_timeline now data = Inr fs"
    "set (map fst fs) = set (map fst base_windows)" "distinct (map fst fs)"
    "sorted (map (\<lambda>x. days (snd x)) fs)"
    by blast
  have "length (map fst fs) = card (set (map fst fs))"
    using fs(3) by (simp only: distinct_card)
  also have "\<dots> = card (set (map fst base_windows))" by (simp only: fs(2))
  also have "\<dots> = 8" by (simp add: base_windows_def)
  finally have "length fs = 8" by simp
  with fs have "\<exists>fs. forecast_crime_timeline now data = Inr fs
      \<and> set (map fst fs) = set (map fst CRIME_TIME_WINDOWS)
      \<and> distinct (map fst fs) \<and> length fs = 8
      \<and> sorted (map (\<lambda>x. days (snd x)) fs)"
    unfolding tables_svc by blast
  then show ?thesis unfolding timeline_svc by simp
qed

theorem timeline_keys_sorted_witness:
  "quotient_in_range example_record
   \<and> (\<exists>fs. forecast_crime_timeline 0 example_record = Inr fs
      \<and> set (map fst fs) = set (map fst CRIME_TIME_WINDOWS)
      \<and> distinct (map fst fs) \<and> length fs = 8
      \<and> sorted (map (\<lambda>x. days (snd x)) fs))"
proof -
  have q: "quotient_in_range example_record"
    by (rule validated_counts_in_range) (simp add: example_record_def get_def)
  from timeline_keys_sorted [OF q, of 0] q show ?thesis by blast
qed


section \<open>Day counts and confidence intervals\<close>

lemma fl_young_owner:
  "fl (7 / 10) = 3152519739159347 / 4503599627370496"
  "fl (4 / 5) = 3602879701896397 / 4503599627370496"
  "fl (1) = 1"
  "fl (7 / 5) = 3152519739159347 / 2251799813685248"
  "fl (274269217306863189 / 4503599627370496) = 8570913040839475 / 140737488355328"
  "fl (91423072435621063 / 1125899906842624) = 1428485506806579 / 17592186044416"
  "fl (6136154492292301 / 70368744177664) = 6136154492292301 / 70368744177664"
  "fl (392713887506707273 / 4503599627370496) = 6136154492292301 / 70368744177664"
  "fl (263010218238436981 / 2251799813685248) = 2054767329987789 / 17592186044416"
  "fl (2054767329987789 / 17592186044416) = 2054767329987789 / 17592186044416"
  "fl (274269217306863189 / 2251799813685248) = 8570913040839475 / 70368744177664"
  "fl (91423072435621063 / 562949953421312) = 1428485506806579 / 8796093022208"
  subgoal using fl_eval [of "(- 1)" "7 / 10" "6305039478318694"] by simp
  subgoal using fl_eval [of "(- 1)" "4 / 5" "7205759403792794"] by simp
  subgoal using fl_eval [of "0" "1" "4503599627370496"] by simp
  subgoal using fl_eval [of "0" "7 / 5" "6305039478318694"] by simp
  subgoal using fl_eval [of "5" "274269217306863189 / 4503599627370496" "8570913040839475"] by simp
  subgoal using fl_eval [of "6" "91423072435621063 / 1125899906842624" "5713942027226316"] by simp
  subgoal using fl_eval [of "6" "6136154492292301 / 70368744177664" "6136154492292301"] by simp
  subgoal using fl_eval [of "6" "392713887506707273 / 4503599627370496" "6136154492292301"] by simp
  subgoal using fl_eval [of "6" "263010218238436981 / 2251799813685248" "8219069319951156"] by simp
  subgoal using fl_eval [of "6" "2054767329987789 / 17592186044416" "8219069319951156"] by simp
  subgoal using fl_eval [of "6" "274269217306863189 / 2251799813685248" "8570913040839475"] by simp
  subgoal using fl_eval [of "7" "91423072435621063 / 562949953421312" "5713942027226316"] by simp
  done

lemma young_owner_in_range: "quotient_in_range young_owner"
  by (simp add: quotient_in_range_def young_owner_def get_def)

lemma young_owner_modifiers:
  "get_age_modifier young_owner = 3602879701896397 / 4503599627370496"
  "get_pattern_modifier young_owner crime = 1"
  "get_social_modifier young_owner = 1"
  by (simp_all add: get_age_modifier_def get_pattern_modifier_def get_social_modifier_def
      young_owner_def get_def dict_get_def modifiers_def fl_young_owner)

lemma young_owner_days:
  "max 30 (min 365 (trunc (fmul (fmul (fmul (of_int 146) (get_age_modifier young_owner))
      (get_pattern_modifier young_owner ''Krazha'')) (get_social_modifier young_owner)))) = 116"
  "max 30 (min 365 (trunc (fmul (fmul (fmul (of_int 109) (get_age_modifier young_owner))
      (get_pattern_modifier young_owner ''Moshennichestvo'')) (get_social_modifier young_owner)))) = 87"
  unfolding young_owner_modifiers
  by (simp_all add: fmul_def trunc_def fl_young_owner floor_eq_iff)


lemma young_owner_intervals:
  "trunc (fmul (of_int 87) (fl 0.7)) = 60" "trunc (fmul (of_int 87) (fl 1.4)) = 121"
  by (simp_all add: fmul_def trunc_def fl_young_owner floor_eq_iff)

lemma young_owner_single:
  fixes crime :: string and B :: int
  defines "D \<equiv> max 30 (min 365 (trunc (fmul (fmul (fmul (of_int B) (get_age_modifier young_owner))
      (get_pattern_modifier young_owner crime)) (get_social_modifier young_owner))))"
  shows "map_sum id days (calculate_single_forecast now young_owner crime B) = Inr D"
    and "map_sum id ci_lower (calculate_single_forecast now young_owner crime B) =
           Inr (trunc (fmul (of_int D) (fl 0.7)))"
    and "map_sum id ci_upper (calculate_single_forecast now young_owner crime B) =
           Inr (trunc (fmul (of_int D) (fl 1.4)))"
proof -
  obtain p where "calculate_crime_probability young_owner crime D = Inr p"
    using probability_total [OF young_owner_in_range] by blast
  note r = single_unfold [OF this [unfolded D_def]]
  show "map_sum id days (calculate_single_forecast now young_owner crime B) = Inr D"
    unfolding D_def r by simp
  show "map_sum id ci_lower (calculate_single_forecast now young_owner crime B) =
           Inr (trunc (fmul (of_int D) (fl 0.7)))"
    unfolding D_def r by simp
  show "map_sum id ci_upper (calculate_single_forecast now young_owner crime B) =
           Inr (trunc (fmul (of_int D) (fl 1.4)))"
    unfolding D_def r by simp
qed


text \<open>
  C6, as stated, fails. For the same person and the fraud window of 109 days the entry
  has 87 days and the interval (60, 121), the truncations of 60.9 and 121.8; rounding
  gives (61, 122).
\<close>

theorem interval_rounded_counterexample:
  "map_sum id days (calculate_single_forecast 0 young_owner ''Moshennichestvo'' 109) = Inr 87
   \<and> map_sum id ci_lower (calculate_single_forecast 0 young_owner ''Moshennichestvo'' 109) = Inr 60
   \<and> map_sum id ci_upper (calculate_single_forecast 0 young_owner ''Moshennichestvo'' 109) = Inr 121
   \<and> spec_confidence_interval 87 = (61, 122)"
proof -
  have code: "map_sum id days (calculate_single_forecast 0 young_owner ''Moshennichestvo'' 109) = Inr 87"
    "map_sum id ci_lower (calculate_single_forecast 0 young_owner ''Moshennichestvo'' 109) = Inr 60"
    "map_sum id ci_upper (calculate_single_forecast 0 young_owner ''Moshennichestvo'' 109) = Inr 121"
    unfolding young_owner_single young_owner_days young_owner_intervals by (rule refl)+
  have "py_round (8570913040839475 / 140737488355328) = 61"
       "py_round (8570913040839475 / 70368744177664) = 122"
    unfolding py_round_def by (rule rne_eqI, simp)+
  then have "spec_confidence_interval 87 = (61, 122)"
    by (simp add: spec_confidence_interval_def fmul_def fl_young_owner)
  with code show ?thesis by simp
qed

lemma modifiers_spec:
  "get_age_modifier data = spec_age_modifier (get (current_age data) 35)"
  "get_pattern_modifier data crime =
     spec_pattern_modifier (get (pattern_type data) ''unknown'') crime"
  "get_social_modifier data =
     spec_social_modifier (get (has_property data) 0) (get (has_job data) 0)
       (get (substance_abuse data) 0)"
proof -
  show "get_age_modifier data = spec_age_modifier (get (current_age data) 35)"
    unfolding get_age_modifier_def spec_age_modifier_def Let_def by (rule refl)
  have "dict_get modifiers p (fl 1.0) = spec_pattern_base p" for p
    by (simp add: dict_get_def modifiers_def spec_pattern_base_def)
  then show "get_pattern_modifier data crime =
     spec_pattern_modifier (get (pattern_type data) ''unknown'') crime"
    unfolding get_pattern_modifier_def spec_pattern_modifier_def Let_def by auto
  show "get_social_modifier data =
     spec_social_modifier (get (has_property data) 0) (get (has_job data) 0)
       (get (substance_abuse data) 0)"
    unfolding get_social_modifier_def spec_social_modifier_def by (rule refl)
qed



lemma single_fields:
  assumes "quotient_in_range data"
  shows "\<exists>f. calculate_single_forecast now data crime B = Inr f
     \<and> days f = clamp (trunc (spec_days_product data crime B)) 30 365
     \<and> ci_lower f = trunc (fmul (of_int (days f)) (fl 0.7))
     \<and> ci_upper f = trunc (fmul (of_int (days f)) (fl 1.4))
     \<and> (\<exists>p. calculate_crime_probability data crime (days f) = Inr p \<and> probability f = p)"
proof -
  let ?D = "max 30 (min 365 (trunc
      (fmul (fmul (fmul (of_int B) (get_age_modifier data)) (get_pattern_modifier data crime))
         (get_social_modifier data))))"
  obtain p where p: "calculate_crime_probability data crime ?D = Inr p"
    using probability_total [OF assms] by blast
  have D: "?D = clamp (trunc (spec_days_product data crime B)) 30 365"
    unfolding clamp_def spec_days_product_def modifiers_spec by (rule refl)
  show ?thesis
    unfolding single_unfold [OF p] using p by (simp add: D)
qed



text \<open>
  C6, amended. In both copies the confidence interval of an entry is
  \<open>(int(days * 0.7), int(days * 1.4))\<close>, the float products truncated towards zero,
  where \<open>days\<close> is that entry's day count. The entry exists whenever the scorer returns.
\<close>

theorem interval_truncated:
  assumes "quotient_in_range data"
  shows "(\<exists>f. calculate_single_forecast now data crime B = Inr f
      \<and> ci_lower f = trunc (fmul (of_int (days f)) (fl 0.7))
      \<and> ci_upper f = trunc (fmul (of_int (days f)) (fl 1.4)))
   \<and> (\<exists>f. calculate_single_forecast_svc now data crime B = Inr f
      \<and> ci_lower f = trunc (fmul (of_int (days f)) (fl 0.7))
      \<and> ci_upper f = trunc (fmul (of_int (days f)) (fl 1.4)))"
proof -
  have "\<exists>f. calculate_single_forecast now data crime B = Inr f
      \<and> ci_lower f = trunc (fmul (of_int (days f)) (fl 0.7))
      \<and> ci_upper f = trunc (fmul (of_int (days f)) (fl 1.4))"
    using single_fields [OF assms, of now crime B] by blast
  then show ?thesis unfolding single_svc by simp
qed

theorem interval_truncated_witness:
  "quotient_in_range young_owner
   \<and> (\<exists>f. calculate_single_forecast 0 young_owner ''Moshennichestvo'' 109 = Inr f
      \<and> ci_lower f = trunc (fmul (of_int (days f)) (fl 0.7))
      \<and> ci_upper f = trunc (fmul (of_int (days f)) (fl 1.4)))"
proof -
  have q: "quotient_in_range young_owner"
    by (simp add: quotient_in_range_def young_owner_def get_def)
  from interval_truncated [OF q, of 0 "''Moshennichestvo''" 109] q show ?thesis by blast
qed


subsection \<open>The day count lies strictly inside its interval\<close>

lemma fl_of_int:
  assumes "0 < n" "n < 2 ^ 53"
  shows "fl (of_int n) = of_int n"
proof -
  define x :: rat where "x = of_int n"
  have pos: "0 < x" using assms(1) by (simp add: x_def)
  then have abs: "\<bar>x\<bar> = x" by simp
  have "x < of_int (2 ^ 53)" unfolding x_def using assms(2) by (simp only: of_int_less_iff)
  then have lt: "x < power_int 2 53" by simp
  have e: "expo x \<le> 52"
  proof (rule ccontr)
    assume "\<not> expo x \<le> 52"
    then have "53 \<le> expo x" by simp
    then have "(power_int 2 53 :: rat) \<le> power_int 2 (expo x)"
      by (intro power_int_increasing) simp_all
    with expo_bounds(1) [OF pos] lt show False by linarith
  qed
  define k where "k = nat (52 - expo x)"
  have u: "ulp x = 1 / 2 ^ k"
  proof -
    have "expo x - 52 = - int k" using e by (simp add: k_def)
    then show ?thesis
      by (simp add: ulp_def abs power_int_minus inverse_eq_divide)
  qed
  have q: "x / ulp x = of_int (n * 2 ^ k)" unfolding u by (simp add: x_def)
  have "fl x = of_int (rne (x / ulp x)) * ulp x" using pos by (simp add: fl_def)
  also have "\<dots> = of_int (n * 2 ^ k) * ulp x" by (simp only: q rne_of_int)
  also have "\<dots> = x" unfolding u by (simp add: x_def)
  finally show ?thesis by (simp add: x_def)
qed

lemma floor_fl_le:
  assumes "0 \<le> x" "x \<le> of_int n" "0 < n" "n < 2 ^ 53"
  shows "trunc (fl x) \<le> n"
proof -
  have "fl x \<le> fl (of_int n)" using assms(1,2) by (rule fl_mono)
  then have le: "fl x \<le> of_int n" by (simp only: fl_of_int [OF assms(3,4)])
  have "0 \<le> fl x" using assms(1) by (rule fl_nonneg)
  then have "trunc (fl x) = \<lfloor>fl x\<rfloor>" by (simp add: trunc_def)
  moreover have "\<lfloor>fl x\<rfloor> \<le> n" using le by (simp add: floor_le_iff)
  ultimately show ?thesis by simp
qed

lemma floor_fl_ge:
  assumes "of_int n \<le> x" "0 < n" "n < 2 ^ 53"
  shows "n \<le> trunc (fl x)"
proof -
  have x: "0 \<le> x" using assms(1,2) by (meson dual_order.trans of_int_0_le_iff order_less_imp_le)
  have "0 \<le> (of_int n :: rat)" using assms(2) by simp
  then have "fl (of_int n) \<le> fl x" using assms(1) by (rule fl_mono)
  then have ge: "of_int n \<le> fl x" by (simp only: fl_of_int [OF assms(2,3)])
  have "0 \<le> fl x" using x by (rule fl_nonneg)
  then have "trunc (fl x) = \<lfloor>fl x\<rfloor>" by (simp add: trunc_def)
  moreover have "n \<le> \<lfloor>fl x\<rfloor>" using ge by (simp add: le_floor_iff)
  ultimately show ?thesis by simp
qed

lemma interval_strict:
  assumes "30 \<le> D" "D \<le> 365"
  shows "trunc (fmul (of_int D) (fl 0.7)) < D" and "D < trunc (fmul (of_int D) (fl 1.4))"
proof -
  have "(of_int 30 :: rat) \<le> of_int D" using assms(1) by (simp only: of_int_le_iff)
  then have D: "(30::rat) \<le> of_int D" by simp
  have "of_int D * (3152519739159347 / 4503599627370496 :: rat) \<le> of_int D - 1"
    using D by simp
  then have up: "of_int D * (3152519739159347 / 4503599627370496 :: rat) \<le> of_int (D - 1)"
    by simp
  have "0 \<le> of_int D * (3152519739159347 / 4503599627370496 :: rat)" using D by simp
  from floor_fl_le [OF this up] assms
  have "trunc (fl (of_int D * (3152519739159347 / 4503599627370496))) \<le> D - 1" by simp
  then show "trunc (fmul (of_int D) (fl 0.7)) < D" by (simp add: fmul_def fl_literals)
  have "of_int D + 1 \<le> of_int D * (3152519739159347 / 2251799813685248 :: rat)"
    using D by simp
  then have lo: "of_int (D + 1) \<le> of_int D * (3152519739159347 / 2251799813685248 :: rat)"
    by simp
  from floor_fl_ge [OF lo] assms
  have "D + 1 \<le> trunc (fl (of_int D * (3152519739159347 / 2251799813685248)))" by simp
  then show "D < trunc (fmul (of_int D) (fl 1.4))" by (simp add: fmul_def fl_literals)
qed

lemma timeline_length:
  assumes "quotient_in_range data" and "forecast_crime_timeline now data = Inr fs"
  shows "length fs = 8"
proof -
  from timeline_result [OF assms(1), of now] assms(2)
  have fs: "set (map fst fs) = set (map fst base_windows)" "distinct (map fst fs)"
    by auto
  have "length (map fst fs) = card (set (map fst fs))"
    using fs(2) by (simp only: distinct_card)
  also have "\<dots> = card (set (map fst base_windows))" by (simp only: fs(1))
  also have "\<dots> = 8" by (simp add: base_windows_def)
  finally show ?thesis by simp
qed

lemma single_interval_strict:
  assumes "quotient_in_range data"
  shows "\<exists>f. calculate_single_forecast now data crime B = Inr f
     \<and> ci_lower f < days f \<and> days f < ci_upper f"
proof -
  from single_fields [OF assms, of now crime B]
  obtain f where f: "calculate_single_forecast now data crime B = Inr f"
    "days f = clamp (trunc (spec_days_product data crime B)) 30 365"
    "ci_lower f = trunc (fmul (of_int (days f)) (fl 0.7))"
    "ci_upper f = trunc (fmul (of_int (days f)) (fl 1.4))"
    by blast
  have "30 \<le> days f" "days f \<le> 365" by (simp_all add: f(2) clamp_def)
  from interval_strict [OF this] f show ?thesis by simp
qed

text \<open>
  C9. For every record, crime type and base window the entry computed by
  \<^verbatim>\<open>_calculate_single_forecast\<close> has \<open>ci_lower \<le> days \<le> ci_upper\<close>, and strictly so;
  in particular this holds for each of the eight entries of the forecast map. The
  entries exist whenever the scorer returns.
\<close>

theorem days_strictly_inside_interval:
  assumes "quotient_in_range data"
  shows "(\<exists>f. calculate_single_forecast now data crime B = Inr f
      \<and> ci_lower f \<le> days f \<and> days f \<le> ci_upper f
      \<and> ci_lower f < days f \<and> days f < ci_upper f)
   \<and> (\<exists>fs. forecast_crime_timeline now data = Inr fs \<and> length fs = 8
      \<and> list_all (\<lambda>(k, f). ci_lower f < days f \<and> days f < ci_upper f) fs)"
proof -
  from single_interval_strict [OF assms, of now crime B]
  have 1: "\<exists>f. calculate_single_forecast now data crime B = Inr f
      \<and> ci_lower f \<le> days f \<and> days f \<le> ci_upper f
      \<and> ci_lower f < days f \<and> days f < ci_upper f"
    by force
  from timeline_result [OF assms, of now]
  obtain fs where fs: "forecast_crime_timeline now data = Inr fs"
    "\<forall>(k, f) \<in> set fs.
       \<exists>B. (k, B) \<in> set base_windows \<and> calculate_single_forecast now data k B = Inr f"
    by blast
  have "ci_lower f < days f \<and> days f < ci_upper f" if "(k, f) \<in> set fs" for k f
  proof -
    from fs(2) that obtain B' where "calculate_single_forecast now data k B' = Inr f" by blast
    with single_interval_strict [OF assms, of now k B'] show ?thesis by simp
  qed
  then have "list_all (\<lambda>(k, f). ci_lower f < days f \<and> days f < ci_upper f) fs"
    by (auto simp: list_all_iff)
  with fs(1) timeline_length [OF assms fs(1)] 1 show ?thesis by blast
qed

theorem days_strictly_inside_interval_witness:
  "quotient_in_range example_record
   \<and> (\<exists>f. calculate_single_forecast 0 example_record ''Grabezh'' 148 = Inr f
      \<and> ci_lower f < days f \<and> days f < ci_upper f)
   \<and> (\<exists>fs. forecast_crime_timeline 0 example_record = Inr fs \<and> length fs = 8
      \<and> list_all (\<lambda>(k, f). ci_lower f < days f \<and> days f < ci_upper f) fs)"
proof -
  have q: "quotient_in_range example_record"
    by (rule validated_counts_in_range) (simp add: example_record_def get_def)
  from days_strictly_inside_interval [OF q, of 0 "''Grabezh''" 148] q
  show ?thesis by (intro conjI) blast+
qed


section \<open>The crime probability\<close>

lemma fl_windows:
  "fl (109 / 2) = 109 / 2"
  "fl (70) = 70"
  "fl (143 / 2) = 143 / 2"
  "fl (72) = 72"
  "fl (73) = 73"
  "fl (74) = 74"
  "fl (75) = 75"
  "fl (155 / 2) = 155 / 2"
  "fl (157 / 2) = 157 / 2"
  "fl (327 / 2) = 327 / 2"
  "fl (210) = 210"
  "fl (429 / 2) = 429 / 2"
  "fl (216) = 216"
  "fl (219) = 219"
  "fl (222) = 222"
  "fl (225) = 225"
  "fl (465 / 2) = 465 / 2"
  "fl (471 / 2) = 471 / 2"
  subgoal using fl_eval [of "5" "109 / 2" "7670193115365376"] by simp
  subgoal using fl_eval [of "6" "70" "4925812092436480"] by simp
  subgoal using fl_eval [of "6" "143 / 2" "5031365208702976"] by simp
  subgoal using fl_eval [of "6" "72" "5066549580791808"] by simp
  subgoal using fl_eval [of "6" "73" "5136918324969472"] by simp
  subgoal using fl_eval [of "6" "74" "5207287069147136"] by simp
  subgoal using fl_eval [of "6" "75" "5277655813324800"] by simp
  subgoal using fl_eval [of "6" "155 / 2" "5453577673768960"] by simp
  subgoal using fl_eval [of "6" "157 / 2" "5523946417946624"] by simp
  subgoal using fl_eval [of "7" "327 / 2" "5752644836524032"] by simp
  subgoal using fl_eval [of "7" "210" "7388718138654720"] by simp
  subgoal using fl_eval [of "7" "429 / 2" "7547047813054464"] by simp
  subgoal using fl_eval [of "7" "216" "7599824371187712"] by simp
  subgoal using fl_eval [of "7" "219" "7705377487454208"] by simp
  subgoal using fl_eval [of "7" "222" "7810930603720704"] by simp
  subgoal using fl_eval [of "7" "225" "7916483719987200"] by simp
  subgoal using fl_eval [of "7" "465 / 2" "8180366510653440"] by simp
  subgoal using fl_eval [of "7" "471 / 2" "8285919626919936"] by simp
  done

lemma half_window:
  "fmul (of_int (dict_get time_windows crime 140)) (fl 0.5) =
     of_int (dict_get time_windows crime 140) / 2"
  "fmul (of_int (dict_get time_windows crime 140)) (fl 1.5) =
     3 * of_int (dict_get time_windows crime 140) / 2"
  by (simp_all add: dict_get_def time_windows_def fmul_def fl_literals fl_windows)

lemma half_compare:
  "(of_int d :: rat) < of_int W / 2 \<longleftrightarrow> 2 * d < W"
  "(of_int d :: rat) < 3 * of_int W / 2 \<longleftrightarrow> 2 * d < 3 * W"
proof -
  have "(of_int d :: rat) < of_int W / 2 \<longleftrightarrow> (of_int (2 * d) :: rat) < of_int W"
    by (simp add: field_simps)
  then show "(of_int d :: rat) < of_int W / 2 \<longleftrightarrow> 2 * d < W"
    by (simp only: of_int_less_iff)
  have "(of_int d :: rat) < 3 * of_int W / 2 \<longleftrightarrow> (of_int (2 * d) :: rat) < of_int (3 * W)"
    by (simp add: field_simps)
  then show "(of_int d :: rat) < 3 * of_int W / 2 \<longleftrightarrow> 2 * d < 3 * W"
    by (simp only: of_int_less_iff)
qed

lemma time_modifier_spec:
  "(if of_int d < fmul (of_int (dict_get time_windows crime 140)) (fl 0.5) then fl 0.6
    else if d < dict_get time_windows crime 140 then fl 0.8
    else if of_int d < fmul (of_int (dict_get time_windows crime 140)) (fl 1.5) then fl 1.0
    else fl 0.7) = spec_time_modifier (dict_get time_windows crime 140) d"
  unfolding half_window half_compare spec_time_modifier_def by (rule refl)

lemma probability_pattern_modifier_spec:
  "(if pattern = ''chronic_criminal'' \<and> crime \<in> set [''Krazha'', ''Grabezh'']
    then fl 1.3
    else if pattern = ''escalating'' \<and> crime \<in> set [''Grabezh'', ''Razboy'']
    then fl 1.2
    else if pattern = ''mixed_unstable'' then fl 1.1
    else fl 1.0) = spec_probability_pattern_modifier pattern crime"
  unfolding spec_probability_pattern_modifier_def by auto

lemma probability_spec:
  assumes "calculate_risk_score data = Inr (s, c)"
  shows "calculate_crime_probability data crime d =
    Inr (clamp
      (fmul (fmul (fmul (dict_get base_probabilities crime (fl 50.0)) (fl (s / 10)))
         (spec_time_modifier (dict_get time_windows crime 140) d))
         (spec_probability_pattern_modifier (get (pattern_type data) ''unknown'') crime))
      5 95)"
  unfolding probability_unfold [OF assms] time_modifier_spec probability_pattern_modifier_spec
    clamp_def
  by (rule refl)

text \<open>
  C7. For every record, crime type and \<open>days_ahead\<close>,
  \<^verbatim>\<open>calculate_crime_probability\<close> returns
  \<open>clamp(base_rate * (risk_score / 10) * time_modifier * pattern_modifier, 5, 95)\<close>,
  where \<open>risk_score\<close> is the record's \<^verbatim>\<open>calculate_risk_score\<close> result, the time
  modifier is 0.6, 0.8, 1.0 or 0.7 as \<open>days_ahead\<close> is below 50%, 100%, 150% of the
  crime's base window or beyond, and the pattern modifier is as the specification lists
  it; the products are float products. Hence the result, and the probability of every
  entry of the forecast map, lies between 5 and 95. The function returns whenever the
  scorer does.
\<close>

theorem probability_formula_and_range:
  assumes "quotient_in_range data"
  shows "(\<exists>s c. calculate_risk_score data = Inr (s, c)
      \<and> calculate_crime_probability data crime days_ahead =
          Inr (clamp
            (fmul (fmul (fmul (dict_get base_probabilities crime (fl 50.0)) (fl (s / 10)))
               (spec_time_modifier (dict_get time_windows crime 140) days_ahead))
               (spec_probability_pattern_modifier (get (pattern_type data) ''unknown'') crime))
            5 95))
   \<and> (\<exists>p. calculate_crime_probability data crime days_ahead = Inr p \<and> 5 \<le> p \<and> p \<le> 95)
   \<and> (\<exists>fs. forecast_crime_timeline now data = Inr fs \<and> length fs = 8
      \<and> list_all (\<lambda>(k, f). 5 \<le> probability f \<and> probability f \<le> 95) fs)"
proof -
  obtain s c where sc: "calculate_risk_score data = Inr (s, c)"
    using risk_score_returns [OF assms] by blast
  note 1 = probability_spec [OF sc, of crime days_ahead]
  note 2 = probability_total [OF assms, of crime days_ahead]
  from timeline_result [OF assms, of now]
  obtain fs where fs: "forecast_crime_timeline now data = Inr fs"
    "\<forall>(k, f) \<in> set fs.
       \<exists>B. (k, B) \<in> set base_windows \<and> calculate_single_forecast now data k B = Inr f"
    by blast
  have "5 \<le> probability f \<and> probability f \<le> 95" if "(k, f) \<in> set fs" for k f
  proof -
    from fs(2) that obtain B where B: "calculate_single_forecast now data k B = Inr f" by blast
    from single_fields [OF assms, of now k B] B
    obtain p where "calculate_crime_probability data k (days f) = Inr p" "probability f = p"
      by auto
    with probability_total [OF assms, of k "days f"] show ?thesis by simp
  qed
  then have "list_all (\<lambda>(k, f). 5 \<le> probability f \<and> probability f \<le> 95) fs"
    by (auto simp: list_all_iff)
  with fs(1) timeline_length [OF assms fs(1)] sc 1 2 show ?thesis by blast
qed

theorem probability_formula_and_range_witness:
  "quotient_in_range example_record
   \<and> (\<exists>p. calculate_crime_probability example_record ''Krazha'' 100 = Inr p
        \<and> 5 \<le> p \<and> p \<le> 95)
   \<and> (\<exists>fs. forecast_crime_timeline 0 example_record = Inr fs \<and> length fs = 8
      \<and> list_all (\<lambda>(k, f). 5 \<le> probability f \<and> probability f \<le> 95) fs)"
proof -
  have q: "quotient_in_range example_record"
    by (rule validated_counts_in_range) (simp add: example_record_def get_def)
  from probability_formula_and_range [OF q, of "''Krazha''" 100 0] q
  show ?thesis by (intro conjI) blast+
qed


section \<open>The range of the score\<close>

lemma fl_score_bounds:
  "fl (1 / 10) = 3602879701896397 / 36028797018963968"
  "fl (3 / 20) = 5404319552844595 / 36028797018963968"
  "fl (1 / 5) = 3602879701896397 / 18014398509481984"
  "fl (3602879701896397 / 18014398509481984) = 3602879701896397 / 18014398509481984"
  "fl (1 / 4) = 1 / 4"
  "fl (5404319552844595 / 18014398509481984) = 5404319552844595 / 18014398509481984"
  "fl (3 / 10) = 5404319552844595 / 18014398509481984"
  "fl (2 / 5) = 3602879701896397 / 9007199254740992"
  "fl (1 / 2) = 1 / 2"
  "fl (3 / 4) = 3 / 4"
  "fl (4 / 5) = 3602879701896397 / 4503599627370496"
  "fl (17 / 20) = 7656119366529843 / 9007199254740992"
  "fl (9 / 10) = 8106479329266893 / 9007199254740992"
  "fl (1) = 1"
  "fl (18014398509481985 / 18014398509481984) = 1"
  "fl (18915118434956083 / 18014398509481984) = 4728779608739021 / 4503599627370496"
  "fl (5 / 4) = 5 / 4"
  "fl (22517998136852481 / 18014398509481984) = 5 / 4"
  "fl (48638875975601355 / 36028797018963968) = 6079859496950169 / 4503599627370496"
  "fl (27 / 20) = 3039929748475085 / 2251799813685248"
  "fl (27021597764222975 / 18014398509481984) = 3 / 2"
  "fl (3 / 2) = 3 / 2"
  "fl (27922317689697075 / 18014398509481984) = 6980579422424269 / 4503599627370496"
  "fl (31 / 20) = 6980579422424269 / 4503599627370496"
  "fl (2) = 2"
  "fl (18014398509481985 / 9007199254740992) = 2"
  "fl (17 / 8) = 17 / 8"
  "fl (9 / 4) = 9 / 4"
  "fl (27021597764222975 / 9007199254740992) = 3"
  "fl (18014398509481985 / 4503599627370496) = 4"
  "fl (17 / 4) = 17 / 4"
  "fl (5) = 5"
  "fl (23 / 4) = 23 / 4"
  "fl (27 / 4) = 27 / 4"
  "fl (18014398509481985 / 2251799813685248) = 8"
  "fl (36479156981701017 / 4503599627370496) = 4559894622712627 / 562949953421312"
  "fl (38280596832649215 / 4503599627370496) = 17 / 2"
  "fl (40532396646334465 / 4503599627370496) = 9"
  "fl (42559016478651185 / 4503599627370496) = 2659938529915699 / 281474976710656"
  "fl (189 / 20) = 2659938529915699 / 281474976710656"
  subgoal using fl_eval [of "(- 4)" "1 / 10" "7205759403792794"] by simp
  subgoal using fl_eval [of "(- 3)" "3 / 20" "5404319552844595"] by simp
  subgoal using fl_eval [of "(- 3)" "1 / 5" "7205759403792794"] by simp
  subgoal using fl_eval [of "(- 3)" "3602879701896397 / 18014398509481984" "7205759403792794"] by simp
  subgoal using fl_eval [of "(- 2)" "1 / 4" "4503599627370496"] by simp
  subgoal using fl_eval [of "(- 2)" "5404319552844595 / 18014398509481984" "5404319552844595"] by simp
  subgoal using fl_eval [of "(- 2)" "3 / 10" "5404319552844595"] by simp
  subgoal using fl_eval [of "(- 2)" "2 / 5" "7205759403792794"] by simp
  subgoal using fl_eval [of "(- 1)" "1 / 2" "4503599627370496"] by simp
  subgoal using fl_eval [of "(- 1)" "3 / 4" "6755399441055744"] by simp
  subgoal using fl_eval [of "(- 1)" "4 / 5" "7205759403792794"] by simp
  subgoal using fl_eval [of "(- 1)" "17 / 20" "7656119366529843"] by simp
  subgoal using fl_eval [of "(- 1)" "9 / 10" "8106479329266893"] by simp
  subgoal using fl_eval [of "0" "1" "4503599627370496"] by simp
  subgoal using fl_eval [of "0" "18014398509481985 / 18014398509481984" "4503599627370496"] by simp
  subgoal using fl_eval [of "0" "18915118434956083 / 18014398509481984" "4728779608739021"] by simp
  subgoal using fl_eval [of "0" "5 / 4" "5629499534213120"] by simp
  subgoal using fl_eval [of "0" "22517998136852481 / 18014398509481984" "5629499534213120"] by simp
  subgoal using fl_eval [of "0" "48638875975601355 / 36028797018963968" "6079859496950169"] by simp
  subgoal using fl_eval [of "0" "27 / 20" "6079859496950170"] by simp
  subgoal using fl_eval [of "0" "27021597764222975 / 18014398509481984" "6755399441055744"] by simp
  subgoal using fl_eval [of "0" "3 / 2" "6755399441055744"] by simp
  subgoal using fl_eval [of "0" "27922317689697075 / 18014398509481984" "6980579422424269"] by simp
  subgoal using fl_eval [of "0" "31 / 20" "6980579422424269"] by simp
  subgoal using fl_eval [of "1" "2" "4503599627370496"] by simp
  subgoal using fl_eval [of "1" "18014398509481985 / 9007199254740992" "4503599627370496"] by simp
  subgoal using fl_eval [of "1" "17 / 8" "4785074604081152"] by simp
  subgoal using fl_eval [of "1" "9 / 4" "5066549580791808"] by simp
  subgoal using fl_eval [of "1" "27021597764222975 / 9007199254740992" "6755399441055744"] by simp
  subgoal using fl_eval [of "2" "18014398509481985 / 4503599627370496" "4503599627370496"] by simp
  subgoal using fl_eval [of "2" "17 / 4" "4785074604081152"] by simp
  subgoal using fl_eval [of "2" "5" "5629499534213120"] by simp
  subgoal using fl_eval [of "2" "23 / 4" "6473924464345088"] by simp
  subgoal using fl_eval [of "2" "27 / 4" "7599824371187712"] by simp
  subgoal using fl_eval [of "3" "18014398509481985 / 2251799813685248" "4503599627370496"] by simp
  subgoal using fl_eval [of "3" "36479156981701017 / 4503599627370496" "4559894622712627"] by simp
  subgoal using fl_eval [of "3" "38280596832649215 / 4503599627370496" "4785074604081152"] by simp
  subgoal using fl_eval [of "3" "40532396646334465 / 4503599627370496" "5066549580791808"] by simp
  subgoal using fl_eval [of "3" "42559016478651185 / 4503599627370496" "5319877059831398"] by simp
  subgoal using fl_eval [of "3" "189 / 20" "5319877059831398"] by simp
  done

lemma fl_error_nonneg:
  assumes "0 \<le> x"
  shows "\<bar>fl x - x\<bar> \<le> x / 2 ^ 53"
proof (cases "x = 0")
  case True
  then show ?thesis by (simp add: fl_zero)
next
  case False
  with assms have "0 < x" by simp
  then show ?thesis by (rule fl_error)
qed

lemma fmul_nonneg: "0 \<le> a \<Longrightarrow> 0 \<le> w \<Longrightarrow> 0 \<le> fmul a w"
  unfolding fmul_def by (intro fl_nonneg mult_nonneg_nonneg)

lemma fmul_mono: "0 \<le> a \<Longrightarrow> a \<le> a' \<Longrightarrow> 0 \<le> w \<Longrightarrow> fmul a w \<le> fmul a' w"
  unfolding fmul_def by (intro fl_mono mult_nonneg_nonneg mult_right_mono)

lemma fadd_nonneg: "0 \<le> a \<Longrightarrow> 0 \<le> b \<Longrightarrow> 0 \<le> fadd a b"
  unfolding fadd_def by (intro fl_nonneg add_nonneg_nonneg)

lemma fadd_between:
  assumes "0 \<le> lo" "lo \<le> s" "s \<le> hi" "0 \<le> l" "l \<le> c" "c \<le> u"
  shows "fl (lo + l) \<le> fadd s c" and "fadd s c \<le> fl (hi + u)"
    and "\<bar>fadd s c - (s + c)\<bar> \<le> (hi + u) / 2 ^ 53"
proof -
  have 0: "0 \<le> lo + l" "0 \<le> s + c" using assms by simp_all
  have 1: "lo + l \<le> s + c" "s + c \<le> hi + u" using assms by simp_all
  show "fl (lo + l) \<le> fadd s c" unfolding fadd_def using 0(1) 1(1) by (rule fl_mono)
  show "fadd s c \<le> fl (hi + u)" unfolding fadd_def using 0(2) 1(2) by (rule fl_mono)
  have "\<bar>fadd s c - (s + c)\<bar> \<le> (s + c) / 2 ^ 53"
    unfolding fadd_def using 0(2) by (rule fl_error_nonneg)
  also have "\<dots> \<le> (hi + u) / 2 ^ 53" using 1(2) by (simp add: divide_right_mono)
  finally show "\<bar>fadd s c - (s + c)\<bar> \<le> (hi + u) / 2 ^ 53" .
qed

lemma time_score_range: "2 \<le> calculate_time_score data" "calculate_time_score data \<le> 10"
  by (simp_all add: calculate_time_score_def Let_def)

lemma age_score_range: "2 \<le> calculate_age_score data" "calculate_age_score data \<le> 10"
  by (simp_all add: calculate_age_score_def Let_def)

lemma social_score_range: "0 \<le> calculate_social_score data" "calculate_social_score data \<le> 9"
  by (simp_all add: calculate_social_score_def Let_def)

lemma escalation_score_range:
  "2 \<le> calculate_escalation_score data" "calculate_escalation_score data \<le> 9"
  by (simp_all add: calculate_escalation_score_def Let_def)

lemma history_range:
  assumes "0 \<le> get (total_cases data) 0" and q: "quotient_in_range data"
  shows "\<exists>h. calculate_history_score data = Inr h \<and> 0 \<le> h \<and> h \<le> 10"
proof (cases "get (total_cases data) 0 = 0")
  case True
  then show ?thesis by (simp add: calculate_history_score_def)
next
  case False
  with assms have total: "0 < get (total_cases data) 0" by simp
  define base :: rat where "base =
    (if get (total_cases data) 0 \<le> 2 then 2 else if get (total_cases data) 0 \<le> 5 then 4
     else if get (total_cases data) 0 \<le> 10 then 6 else 8)"
  have base: "0 \<le> base" by (simp add: base_def)
  show ?thesis
  proof (cases "0 < get (criminal_count data) 0")
    case True
    define ratio where
      "ratio = fl (of_int (get (criminal_count data) 0) / of_int (get (total_cases data) 0))"
    have "(0::rat) \<le> of_int (get (criminal_count data) 0) / of_int (get (total_cases data) 0)"
      using True total by simp
    then have "0 \<le> ratio" unfolding ratio_def by (rule fl_nonneg)
    then have "0 \<le> fmul ratio 2" by (intro fmul_nonneg) simp_all
    with base have "0 \<le> fadd base (fmul ratio 2)" by (intro fadd_nonneg)
    moreover have "\<not> overflows ratio"
      using q True False by (simp add: quotient_in_range_def ratio_def)
    then have "calculate_history_score data = Inr (min 10 (fadd base (fmul ratio 2)))"
      using True False
      by (simp add: calculate_history_score_def Let_def truediv_def and_then_simps
          base_def ratio_def)
    ultimately show ?thesis by simp
  next
    case no: False
    have "calculate_history_score data = Inr (min 10 base)"
      using no False
      by (simp add: calculate_history_score_def Let_def and_then_simps base_def)
    with base show ?thesis by simp
  qed
qed

lemma pattern_component_range:
  "3 / 4 \<le> fmul (fmul (dict_get pattern_risks pattern (fl 0.5)) 10) (fl 0.25)"
  "fmul (fmul (dict_get pattern_risks pattern (fl 0.5)) 10) (fl 0.25) \<le> 9 / 4"
  by (simp_all add: dict_get_def pattern_risks_def fmul_def fl_literals fl_score_bounds)

lemma weighted_ranges:
  fixes h :: rat and t a so e :: int
  assumes "0 \<le> h" "h \<le> 10" "2 \<le> t" "t \<le> 10" "2 \<le> a" "a \<le> 10"
    "0 \<le> so" "so \<le> 9" "2 \<le> e" "e \<le> 9"
  shows "0 \<le> fmul h (fl 0.20)" "fmul h (fl 0.20) \<le> 2"
    and "5404319552844595 / 18014398509481984 \<le> fmul (of_int t) (fl 0.15)" "fmul (of_int t) (fl 0.15) \<le> 3 / 2"
    and "3602879701896397 / 18014398509481984 \<le> fmul (of_int a) (fl 0.10)" "fmul (of_int a) (fl 0.10) \<le> 1"
    and "0 \<le> fmul (of_int so) (fl 0.15)" "fmul (of_int so) (fl 0.15) \<le> 6079859496950169 / 4503599627370496"
    and "5404319552844595 / 18014398509481984 \<le> fmul (of_int e) (fl 0.15)" "fmul (of_int e) (fl 0.15) \<le> 6079859496950169 / 4503599627370496"
proof -
  have t: "(2::rat) \<le> of_int t" "(of_int t :: rat) \<le> 10"
    and a: "(2::rat) \<le> of_int a" "(of_int a :: rat) \<le> 10"
    and so: "(0::rat) \<le> of_int so" "(of_int so :: rat) \<le> 9"
    and e: "(2::rat) \<le> of_int e" "(of_int e :: rat) \<le> 9"
    using assms by simp_all
  show "0 \<le> fmul h (fl 0.20)" using assms(1) by (intro fmul_nonneg) (simp_all add: fl_literals)
  have "fmul h (fl 0.20) \<le> fmul 10 (fl 0.20)"
    using assms(1,2) by (intro fmul_mono) (simp_all add: fl_literals)
  then show "fmul h (fl 0.20) \<le> 2" by (simp add: fmul_def fl_literals fl_score_bounds)
  have "fmul 2 (fl 0.15) \<le> fmul (of_int t) (fl 0.15)"
    using t by (intro fmul_mono) (simp_all add: fl_literals)
  then show "5404319552844595 / 18014398509481984 \<le> fmul (of_int t) (fl 0.15)" by (simp add: fmul_def fl_literals fl_score_bounds)
  have "fmul (of_int t) (fl 0.15) \<le> fmul 10 (fl 0.15)"
    using t by (intro fmul_mono) (simp_all add: fl_literals)
  then show "fmul (of_int t) (fl 0.15) \<le> 3 / 2" by (simp add: fmul_def fl_literals fl_score_bounds)
  have "fmul 2 (fl 0.10) \<le> fmul (of_int a) (fl 0.10)"
    using a by (intro fmul_mono) (simp_all add: fl_literals)
  then show "3602879701896397 / 18014398509481984 \<le> fmul (of_int a) (fl 0.10)" by (simp add: fmul_def fl_literals fl_score_bounds)
  have "fmul (of_int a) (fl 0.10) \<le> fmul 10 (fl 0.10)"
    using a by (intro fmul_mono) (simp_all add: fl_literals)
  then show "fmul (of_int a) (fl 0.10) \<le> 1" by (simp add: fmul_def fl_literals fl_score_bounds)
  show "0 \<le> fmul (of_int so) (fl 0.15)"
    using so(1) by (intro fmul_nonneg) (simp_all add: fl_literals)
  have "fmul (of_int so) (fl 0.15) \<le> fmul 9 (fl 0.15)"
    using so by (intro fmul_mono) (simp_all add: fl_literals)
  then show "fmul (of_int so) (fl 0.15) \<le> 6079859496950169 / 4503599627370496" by (simp add: fmul_def fl_literals fl_score_bounds)
  have "fmul 2 (fl 0.15) \<le> fmul (of_int e) (fl 0.15)"
    using e by (intro fmul_mono) (simp_all add: fl_literals)
  then show "5404319552844595 / 18014398509481984 \<le> fmul (of_int e) (fl 0.15)" by (simp add: fmul_def fl_literals fl_score_bounds)
  have "fmul (of_int e) (fl 0.15) \<le> fmul 9 (fl 0.15)"
    using e by (intro fmul_mono) (simp_all add: fl_literals)
  then show "fmul (of_int e) (fl 0.15) \<le> 6079859496950169 / 4503599627370496" by (simp add: fmul_def fl_literals fl_score_bounds)
qed


lemma score_analysis:
  assumes "0 \<le> get (total_cases data) 0" and "quotient_in_range data"
  shows "\<exists>s p h t a so e.
     calculate_risk_score data = Inr (s, [(''pattern'', p), (''history'', h), (''time'', t), (''age'', a), (''social'', so), (''escalation'', e)])
     \<and> s = max 0 (min 10 (py_sum [p, h, t, a, so, e]))
     \<and> 3 / 4 \<le> p \<and> p \<le> 9 / 4 \<and> 0 \<le> h \<and> h \<le> 2 \<and> 5404319552844595 / 18014398509481984 \<le> t \<and> t \<le> 3 / 2
     \<and> 3602879701896397 / 18014398509481984 \<le> a \<and> a \<le> 1 \<and> 0 \<le> so \<and> so \<le> 6079859496950169 / 4503599627370496
     \<and> 5404319552844595 / 18014398509481984 \<le> e \<and> e \<le> 6079859496950169 / 4503599627370496
     \<and> 6980579422424269 / 4503599627370496 \<le> py_sum [p, h, t, a, so, e]
     \<and> py_sum [p, h, t, a, so, e] \<le> 2659938529915699 / 281474976710656
     \<and> \<bar>py_sum [p, h, t, a, so, e] - (p + h + t + a + so + e)\<bar> \<le> 1 / 2 ^ 46"
proof -
  from history_range [OF assms]
  obtain hs where hs: "calculate_history_score data = Inr hs" "0 \<le> hs" "hs \<le> 10"
    by blast
  define p where
    "p = fmul (fmul (dict_get pattern_risks (get (pattern_type data) ''unknown'') (fl 0.5)) 10) (fl 0.25)"
  define h where "h = fmul hs (fl 0.20)"
  define t where "t = fmul (of_int (calculate_time_score data)) (fl 0.15)"
  define a where "a = fmul (of_int (calculate_age_score data)) (fl 0.10)"
  define so where "so = fmul (of_int (calculate_social_score data)) (fl 0.15)"
  define e where "e = fmul (of_int (calculate_escalation_score data)) (fl 0.15)"
  note w = weighted_ranges [OF hs(2,3) time_score_range [of data] age_score_range [of data]
      social_score_range [of data] escalation_score_range [of data],
      folded h_def t_def a_def so_def e_def]
  note pr = pattern_component_range [of "get (pattern_type data) ''unknown''", folded p_def]
  have r: "3 / 4 \<le> p \<and> p \<le> 9 / 4 \<and> 0 \<le> h \<and> h \<le> 2 \<and> 5404319552844595 / 18014398509481984 \<le> t \<and> t \<le> 3 / 2
     \<and> 3602879701896397 / 18014398509481984 \<le> a \<and> a \<le> 1 \<and> 0 \<le> so \<and> so \<le> 6079859496950169 / 4503599627370496
     \<and> 5404319552844595 / 18014398509481984 \<le> e \<and> e \<le> 6079859496950169 / 4503599627370496"
    using w pr by simp
  define s1 where "s1 = fadd 0 p"
  have b1: "3 / 4 \<le> s1" "s1 \<le> 9 / 4"
    and e1: "\<bar>s1 - (0 + p)\<bar> \<le> 1 / 2 ^ 49"
  proof -
    have pre: "(0::rat) \<le> 0" "(0 :: rat) \<le> 0" "(0 :: rat) \<le> 0" "(0::rat) \<le> 3 / 4" "(3 / 4 :: rat) \<le> p" "(p :: rat) \<le> 9 / 4"
      using order_refl r by simp_all
    note fb = fadd_between [OF pre, folded s1_def]
    from fb(1) show "3 / 4 \<le> s1" by (simp add: fl_score_bounds)
    from fb(2) show "s1 \<le> 9 / 4" by (simp add: fl_score_bounds)
    have "(0 + 9 / 4) / 2 ^ 53 \<le> (1 / 2 ^ 49 :: rat)" by simp
    with fb(3) show "\<bar>s1 - (0 + p)\<bar> \<le> 1 / 2 ^ 49" by linarith
  qed
  define s2 where "s2 = fadd s1 h"
  have b2: "3 / 4 \<le> s2" "s2 \<le> 17 / 4"
    and e2: "\<bar>s2 - (s1 + h)\<bar> \<le> 1 / 2 ^ 49"
  proof -
    have pre: "(0::rat) \<le> 3 / 4" "(3 / 4 :: rat) \<le> s1" "(s1 :: rat) \<le> 9 / 4" "(0::rat) \<le> 0" "(0 :: rat) \<le> h" "(h :: rat) \<le> 2"
      using b1 r by simp_all
    note fb = fadd_between [OF pre, folded s2_def]
    from fb(1) show "3 / 4 \<le> s2" by (simp add: fl_score_bounds)
    from fb(2) show "s2 \<le> 17 / 4" by (simp add: fl_score_bounds)
    have "(9 / 4 + 2) / 2 ^ 53 \<le> (1 / 2 ^ 49 :: rat)" by simp
    with fb(3) show "\<bar>s2 - (s1 + h)\<bar> \<le> 1 / 2 ^ 49" by linarith
  qed
  define s3 where "s3 = fadd s2 t"
  have b3: "4728779608739021 / 4503599627370496 \<le> s3" "s3 \<le> 23 / 4"
    and e3: "\<bar>s3 - (s2 + t)\<bar> \<le> 1 / 2 ^ 49"
  proof -
    have pre: "(0::rat) \<le> 3 / 4" "(3 / 4 :: rat) \<le> s2" "(s2 :: rat) \<le> 17 / 4" "(0::rat) \<le> 5404319552844595 / 18014398509481984" "(5404319552844595 / 18014398509481984 :: rat) \<le> t" "(t :: rat) \<le> 3 / 2"
      using b2 r by simp_all
    note fb = fadd_between [OF pre, folded s3_def]
    from fb(1) show "4728779608739021 / 4503599627370496 \<le> s3" by (simp add: fl_score_bounds)
    from fb(2) show "s3 \<le> 23 / 4" by (simp add: fl_score_bounds)
    have "(17 / 4 + 3 / 2) / 2 ^ 53 \<le> (1 / 2 ^ 49 :: rat)" by simp
    with fb(3) show "\<bar>s3 - (s2 + t)\<bar> \<le> 1 / 2 ^ 49" by linarith
  qed
  define s4 where "s4 = fadd s3 a"
  have b4: "5 / 4 \<le> s4" "s4 \<le> 27 / 4"
    and e4: "\<bar>s4 - (s3 + a)\<bar> \<le> 1 / 2 ^ 49"
  proof -
    have pre: "(0::rat) \<le> 4728779608739021 / 4503599627370496" "(4728779608739021 / 4503599627370496 :: rat) \<le> s3" "(s3 :: rat) \<le> 23 / 4" "(0::rat) \<le> 3602879701896397 / 18014398509481984" "(3602879701896397 / 18014398509481984 :: rat) \<le> a" "(a :: rat) \<le> 1"
      using b3 r by simp_all
    note fb = fadd_between [OF pre, folded s4_def]
    from fb(1) show "5 / 4 \<le> s4" by (simp add: fl_score_bounds)
    from fb(2) show "s4 \<le> 27 / 4" by (simp add: fl_score_bounds)
    have "(23 / 4 + 1) / 2 ^ 53 \<le> (1 / 2 ^ 49 :: rat)" by simp
    with fb(3) show "\<bar>s4 - (s3 + a)\<bar> \<le> 1 / 2 ^ 49" by linarith
  qed
  define s5 where "s5 = fadd s4 so"
  have b5: "5 / 4 \<le> s5" "s5 \<le> 4559894622712627 / 562949953421312"
    and e5: "\<bar>s5 - (s4 + so)\<bar> \<le> 1 / 2 ^ 49"
  proof -
    have pre: "(0::rat) \<le> 5 / 4" "(5 / 4 :: rat) \<le> s4" "(s4 :: rat) \<le> 27 / 4" "(0::rat) \<le> 0" "(0 :: rat) \<le> so" "(so :: rat) \<le> 6079859496950169 / 4503599627370496"
      using b4 r by simp_all
    note fb = fadd_between [OF pre, folded s5_def]
    from fb(1) show "5 / 4 \<le> s5" by (simp add: fl_score_bounds)
    from fb(2) show "s5 \<le> 4559894622712627 / 562949953421312" by (simp add: fl_score_bounds)
    have "(27 / 4 + 6079859496950169 / 4503599627370496) / 2 ^ 53 \<le> (1 / 2 ^ 49 :: rat)" by simp
    with fb(3) show "\<bar>s5 - (s4 + so)\<bar> \<le> 1 / 2 ^ 49" by linarith
  qed
  define s6 where "s6 = fadd s5 e"
  have b6: "6980579422424269 / 4503599627370496 \<le> s6" "s6 \<le> 2659938529915699 / 281474976710656"
    and e6: "\<bar>s6 - (s5 + e)\<bar> \<le> 1 / 2 ^ 49"
  proof -
    have pre: "(0::rat) \<le> 5 / 4" "(5 / 4 :: rat) \<le> s5" "(s5 :: rat) \<le> 4559894622712627 / 562949953421312" "(0::rat) \<le> 5404319552844595 / 18014398509481984" "(5404319552844595 / 18014398509481984 :: rat) \<le> e" "(e :: rat) \<le> 6079859496950169 / 4503599627370496"
      using b5 r by simp_all
    note fb = fadd_between [OF pre, folded s6_def]
    from fb(1) show "6980579422424269 / 4503599627370496 \<le> s6" by (simp add: fl_score_bounds)
    from fb(2) show "s6 \<le> 2659938529915699 / 281474976710656" by (simp add: fl_score_bounds)
    have "(4559894622712627 / 562949953421312 + 6079859496950169 / 4503599627370496) / 2 ^ 53 \<le> (1 / 2 ^ 49 :: rat)" by simp
    with fb(3) show "\<bar>s6 - (s5 + e)\<bar> \<le> 1 / 2 ^ 49" by linarith
  qed
  have sum: "py_sum [p, h, t, a, so, e] = s6"
    by (simp add: py_sum_def s1_def s2_def s3_def s4_def s5_def s6_def)
  have err: "\<bar>s6 - (p + h + t + a + so + e)\<bar> \<le> 1 / 2 ^ 46"
  proof -
    have "\<bar>s6 - (p + h + t + a + so + e)\<bar> \<le> 6 * (1 / 2 ^ 49 :: rat)"
      using e1 e2 e3 e4 e5 e6 by linarith
    also have "\<dots> \<le> 1 / 2 ^ 46" by simp
    finally show ?thesis .
  qed
  have "calculate_risk_score data = Inr (max 0 (min 10 (py_sum [p, h, t, a, so, e])), [(''pattern'', p), (''history'', h), (''time'', t), (''age'', a), (''social'', so), (''escalation'', e)])"
    unfolding risk_score_unfold [OF hs(1)] p_def h_def t_def a_def so_def e_def
    by (rule refl)
  with r b6 [folded sum] err [folded sum] show ?thesis by blast
qed


lemma clamp_lipschitz:
  fixes x y :: rat
  shows "\<bar>max 0 (min 10 x) - max 0 (min 10 y)\<bar> \<le> \<bar>x - y\<bar>"
  by linarith

text \<open>
  C10. On every record of the input domain the six weighted components lie in
  [0.75, 2.25], [0, 2.0], [0.3, 1.5], [0.2, 1.0], [0, 1.35] and [0.3, 1.35] (pattern,
  history, time, age, social, escalation), their sum as the code computes it lies in
  [1.55, 9.45], so the clamp to [0, 10] returns the sum unchanged and the score is
  neither 0 nor 10. The decimal bounds on the components are read as Python reads them,
  as float literals; the bounds 1.55 and 9.45 on the sum hold as exact decimals too.
  The scorer returns on the records whose quotient \<^verbatim>\<open>criminal_count / total_cases\<close> is
  not too large for a float.
\<close>

theorem score_never_clamped:
  assumes "in_domain data" and "quotient_in_range data"
  shows "\<exists>s p h t a so e.
     calculate_risk_score data = Inr (s, [(''pattern'', p), (''history'', h), (''time'', t), (''age'', a), (''social'', so), (''escalation'', e)])
     \<and> fl 0.75 \<le> p \<and> p \<le> fl 2.25 \<and> 0 \<le> h \<and> h \<le> fl 2.0
     \<and> fl 0.3 \<le> t \<and> t \<le> fl 1.5 \<and> fl 0.2 \<le> a \<and> a \<le> fl 1.0
     \<and> 0 \<le> so \<and> so \<le> fl 1.35 \<and> fl 0.3 \<le> e \<and> e \<le> fl 1.35
     \<and> 1.55 \<le> py_sum [p, h, t, a, so, e] \<and> py_sum [p, h, t, a, so, e] \<le> 9.45
     \<and> fl 1.55 \<le> py_sum [p, h, t, a, so, e] \<and> py_sum [p, h, t, a, so, e] \<le> fl 9.45
     \<and> s = py_sum [p, h, t, a, so, e] \<and> 0 < s \<and> s < 10"
proof -
  from assms(1) have "0 \<le> get (total_cases data) 0" by (simp add: in_domain_def)
  from score_analysis [OF this assms(2)]
  obtain s p h t a so e where 1: "calculate_risk_score data = Inr (s, [(''pattern'', p), (''history'', h), (''time'', t), (''age'', a), (''social'', so), (''escalation'', e)])"
    and 2: "s = max 0 (min 10 (py_sum [p, h, t, a, so, e]))"
    and 3: "3 / 4 \<le> p" "p \<le> 9 / 4" "0 \<le> h" "h \<le> 2"
      "5404319552844595 / 18014398509481984 \<le> t" "t \<le> 3 / 2"
      "3602879701896397 / 18014398509481984 \<le> a" "a \<le> 1"
      "0 \<le> so" "so \<le> 6079859496950169 / 4503599627370496"
      "5404319552844595 / 18014398509481984 \<le> e" "e \<le> 6079859496950169 / 4503599627370496"
    and 4: "6980579422424269 / 4503599627370496 \<le> py_sum [p, h, t, a, so, e]"
      "py_sum [p, h, t, a, so, e] \<le> 2659938529915699 / 281474976710656"
    by blast
  define S where "S = py_sum [p, h, t, a, so, e]"
  have s: "s = S" using 2 4 unfolding S_def by simp
  have "fl 0.75 \<le> p \<and> p \<le> fl 2.25 \<and> 0 \<le> h \<and> h \<le> fl 2.0
     \<and> fl 0.3 \<le> t \<and> t \<le> fl 1.5 \<and> fl 0.2 \<le> a \<and> a \<le> fl 1.0
     \<and> 0 \<le> so \<and> so \<le> fl 1.35 \<and> fl 0.3 \<le> e \<and> e \<le> fl 1.35"
    using 3 by (simp add: fl_score_bounds)
  moreover have "1.55 \<le> S \<and> S \<le> 9.45 \<and> fl 1.55 \<le> S \<and> S \<le> fl 9.45 \<and> 0 < S \<and> S < 10"
    using 4 unfolding S_def [symmetric] by (simp add: fl_score_bounds)
  ultimately show ?thesis using 1 s unfolding S_def by blast
qed

theorem score_never_clamped_witness:
  "in_domain example_record \<and> quotient_in_range example_record
   \<and> (\<exists>s c. calculate_risk_score example_record = Inr (s, c) \<and> 0 < s \<and> s < 10)"
proof -
  have d: "in_domain example_record"
    by (simp add: in_domain_def example_record_def get_def)
  have q: "quotient_in_range example_record"
    by (rule validated_counts_in_range) (simp add: example_record_def get_def)
  from score_never_clamped [OF d q] d q show ?thesis by blast
qed

text \<open>
  C3. On every record whose numeric fields are non-negative, the returned score is within
  0.001 of the exact sum of the six returned components clamped to [0, 10], and lies
  between 0 and 10. The scorer returns on the records whose quotient
  \<^verbatim>\<open>criminal_count / total_cases\<close> is not too large for a float.
\<close>

theorem score_is_clamped_sum:
  assumes "nonneg_fields data" and "quotient_in_range data"
  shows "\<exists>s c. calculate_risk_score data = Inr (s, c)
     \<and> map fst c = [''pattern'', ''history'', ''time'', ''age'', ''social'', ''escalation'']
     \<and> \<bar>s - clamp (sum_list (map snd c)) 0 10\<bar> \<le> 1 / 1000
     \<and> 0 \<le> s \<and> s \<le> 10"
proof -
  from assms(1) have "0 \<le> get (total_cases data) 0" by (simp add: nonneg_fields_def)
  from score_analysis [OF this assms(2)]
  obtain s p h t a so e where 1: "calculate_risk_score data = Inr (s, [(''pattern'', p), (''history'', h), (''time'', t), (''age'', a), (''social'', so), (''escalation'', e)])"
    and 2: "s = max 0 (min 10 (py_sum [p, h, t, a, so, e]))"
    and 3: "\<bar>py_sum [p, h, t, a, so, e] - (p + h + t + a + so + e)\<bar> \<le> 1 / 2 ^ 46"
    by blast
  define S where "S = py_sum [p, h, t, a, so, e]"
  define X where "X = p + h + t + a + so + e"
  have "\<bar>s - clamp X 0 10\<bar> \<le> \<bar>S - X\<bar>"
    unfolding 2 clamp_def S_def [symmetric] by (rule clamp_lipschitz)
  also have "\<dots> \<le> 1 / 2 ^ 46" using 3 unfolding S_def X_def .
  also have "\<dots> \<le> (1 / 1000 :: rat)" by simp
  finally have err: "\<bar>s - clamp X 0 10\<bar> \<le> 1 / 1000" .
  have x: "sum_list (map snd [(''pattern'', p), (''history'', h), (''time'', t), (''age'', a), (''social'', so), (''escalation'', e)]) = X" by (simp add: X_def)
  have k: "map fst [(''pattern'', p), (''history'', h), (''time'', t), (''age'', a), (''social'', so), (''escalation'', e)] =
      [''pattern'', ''history'', ''time'', ''age'', ''social'', ''escalation'']" by simp
  have r: "0 \<le> s" "s \<le> 10" unfolding 2 by simp_all
  have "calculate_risk_score data = Inr (s, [(''pattern'', p), (''history'', h), (''time'', t), (''age'', a), (''social'', so), (''escalation'', e)])
     \<and> map fst [(''pattern'', p), (''history'', h), (''time'', t), (''age'', a), (''social'', so), (''escalation'', e)] = [''pattern'', ''history'', ''time'', ''age'', ''social'', ''escalation'']
     \<and> \<bar>s - clamp (sum_list (map snd [(''pattern'', p), (''history'', h), (''time'', t), (''age'', a), (''social'', so), (''escalation'', e)])) 0 10\<bar> \<le> 1 / 1000
     \<and> 0 \<le> s \<and> s \<le> 10"
    using 1 k err [folded x] r by (intro conjI)
  then show ?thesis by (intro exI)
qed

theorem score_is_clamped_sum_witness:
  "nonneg_fields example_record \<and> quotient_in_range example_record
   \<and> (\<exists>s c. calculate_risk_score example_record = Inr (s, c)
        \<and> \<bar>s - clamp (sum_list (map snd c)) 0 10\<bar> \<le> 1 / 1000 \<and> 0 \<le> s \<and> s \<le> 10)"
proof -
  have d: "nonneg_fields example_record"
    by (simp add: nonneg_fields_def example_record_def get_def)
  have q: "quotient_in_range example_record"
    by (rule validated_counts_in_range) (simp add: example_record_def get_def)
  from score_is_clamped_sum [OF d q] d q show ?thesis by blast
qed


end
